theory Spec2Isabelle
  imports Main "HOL-Library.AList" "HOL-Library.Multiset"
begin

text \<open>
  A model of \<^verbatim>\<open>index.js\<close> of flatpak-bundler: the key normalizer, the option and
  manifest resolvers, the construction of the argument lists, the staging of files and
  links, and the pipeline that \<^verbatim>\<open>bundle\<close> runs around the external builder. The
  functions of the source keep their names. What the source takes from lodash, from Node
  and from fs-extra is modelled beside them and said to be so where it is defined.
\<close>

section \<open>JavaScript values\<close>

text \<open>
  The manifest and the options handed to \<^verbatim>\<open>bundle\<close> are plain JavaScript data:
  mappings, sequences, scalars, \<^verbatim>\<open>null\<close> and \<^verbatim>\<open>undefined\<close>. An object is an
  association list, so that the insertion order seen by \<^verbatim>\<open>Object.keys\<close> is kept
  (the runtime lists keys that are array indices first; no property proved here depends on
  the order). Numbers are the integers: only their truthiness and their decimal print are
  used. Properties inherited from \<^verbatim>\<open>Object.prototype\<close> are not modelled.
\<close>

datatype jsval =
    JUndefined
  | JNull
  | JBool bool
  | JNum int
  | JStr string
  | JArr "jsval list"
  | JObj "(string \<times> jsval) list"

type_synonym obj = "(string \<times> jsval) list"

text \<open>\<^verbatim>\<open>object[key]\<close>: a key that is not there reads as \<^verbatim>\<open>undefined\<close>.\<close>

definition obj_get :: "obj \<Rightarrow> string \<Rightarrow> jsval" where
  "obj_get ob k = (case map_of ob k of None \<Rightarrow> JUndefined | Some v \<Rightarrow> v)"

text \<open>\<^verbatim>\<open>object[key] = v\<close>: an existing key keeps its place, a new key goes last.\<close>

definition obj_set :: "string \<Rightarrow> jsval \<Rightarrow> obj \<Rightarrow> obj" where
  "obj_set k v ob = AList.update k v ob"

definition obj_keys :: "obj \<Rightarrow> string list" where
  "obj_keys ob = map fst ob"

text \<open>\<^verbatim>\<open>!value\<close>\<close>

definition falsy :: "jsval \<Rightarrow> bool" where
  "falsy v = (v = JUndefined \<or> v = JNull \<or> v = JBool False \<or> v = JNum 0 \<or> v = JStr [])"

section \<open>lodash: \<^verbatim>\<open>_.defaults\<close>\<close>

text \<open>
  \<^verbatim>\<open>_.defaults(object, ...sources)\<close> belongs to lodash, not to the repository. It walks the
  sources from left to right and copies each property of a source into \<^verbatim>\<open>object\<close>
  when \<^verbatim>\<open>object\<close> reads \<^verbatim>\<open>undefined\<close> at that key; a property that already has
  a value is never overwritten.
\<close>

definition defaults_step :: "obj \<Rightarrow> obj \<Rightarrow> string \<Rightarrow> obj" where
  "defaults_step src dest k =
     (if obj_get dest k = JUndefined then obj_set k (obj_get src k) dest else dest)"

definition defaults_from :: "obj \<Rightarrow> obj \<Rightarrow> obj" where
  "defaults_from dest src = foldl (defaults_step src) dest (obj_keys src)"

definition lodash_defaults :: "obj \<Rightarrow> obj list \<Rightarrow> obj" where
  "lodash_defaults dest sources = foldl defaults_from dest sources"

section \<open>The manifest normalizer\<close>

text \<open>
  \<^verbatim>\<open>
  function getManifestWithDefaults (manifest) {
    let defaults = {
      'branch': 'master',
      'sdk': 'org.freedesktop.Sdk',
      'runtime': 'org.freedesktop.Platform',
      'modules': [],
      'files': [],
      'symlinks': []
    }
    if (typeof manifest['runtime'] === 'undefined') {
      defaults['runtime-version'] = '1.4'
    }
    return _.defaults({}, manifest, defaults)
  }
  \<close>
\<close>

definition manifest_defaults :: obj where
  "manifest_defaults =
     [(''branch'', JStr ''master''),
      (''sdk'', JStr ''org.freedesktop.Sdk''),
      (''runtime'', JStr ''org.freedesktop.Platform''),
      (''modules'', JArr []),
      (''files'', JArr []),
      (''symlinks'', JArr [])]"

definition getManifestWithDefaults :: "obj \<Rightarrow> obj" where
  "getManifestWithDefaults manifest =
     (let defaults =
        (if obj_get manifest ''runtime'' = JUndefined
         then obj_set ''runtime-version'' (JStr ''1.4'') manifest_defaults
         else manifest_defaults)
      in lodash_defaults [] [manifest, defaults])"

section \<open>Printing values\<close>

text \<open>
  A template literal \<^verbatim>\<open>`${value}`\<close> prints its value the way \<^verbatim>\<open>String(value)\<close> does:
  a number in decimal, an array as its elements joined by commas (with \<^verbatim>\<open>null\<close> and
  \<^verbatim>\<open>undefined\<close> elements printed as nothing), an object as \<^verbatim>\<open>[object Object]\<close>.
\<close>

definition digit_char :: "nat \<Rightarrow> char" where
  "digit_char d = ''0123456789'' ! d"

fun decimal :: "nat \<Rightarrow> string" where
  "decimal n = (if n < 10 then [digit_char n] else decimal (n div 10) @ [digit_char (n mod 10)])"

declare decimal.simps [simp del]

definition decimal_int :: "int \<Rightarrow> string" where
  "decimal_int i = (if i < 0 then CHR ''-'' # decimal (nat (- i)) else decimal (nat i))"

fun join_with :: "string \<Rightarrow> string list \<Rightarrow> string" where
  "join_with sep [] = []"
| "join_with sep [x] = x"
| "join_with sep (x # y # ys) = x @ sep @ join_with sep (y # ys)"

fun to_string :: "jsval \<Rightarrow> string" where
  "to_string JUndefined = ''undefined''"
| "to_string JNull = ''null''"
| "to_string (JBool b) = (if b then ''true'' else ''false'')"
| "to_string (JNum i) = decimal_int i"
| "to_string (JStr s) = s"
| "to_string (JArr xs) =
     join_with '','' (map (\<lambda>x. if x = JUndefined \<or> x = JNull then [] else to_string x) xs)"
| "to_string (JObj ob) = ''[object Object]''"

section \<open>The key normalizer\<close>

text \<open>
  \<^verbatim>\<open>_.cloneDeepWith(value, customizer)\<close> belongs to lodash. It calls the customizer on the
  value first; a result other than \<^verbatim>\<open>undefined\<close> is returned as the clone, as it is,
  and lodash does not descend into it. Only when the customizer returns \<^verbatim>\<open>undefined\<close>
  does lodash clone the value itself and recurse into the elements of an array and the
  properties of an object, with the same customizer.
\<close>

fun cloneDeepWith :: "(jsval \<Rightarrow> jsval) \<Rightarrow> jsval \<Rightarrow> jsval" where
  "cloneDeepWith customizer (JArr xs) =
     (if customizer (JArr xs) \<noteq> JUndefined then customizer (JArr xs)
      else JArr (map (cloneDeepWith customizer) xs))"
| "cloneDeepWith customizer (JObj ob) =
     (if customizer (JObj ob) \<noteq> JUndefined then customizer (JObj ob)
      else JObj (map (map_prod id (cloneDeepWith customizer)) ob))"
| "cloneDeepWith customizer v =
     (if customizer v \<noteq> JUndefined then customizer v else v)"

text \<open>
  \<^verbatim>\<open>typeof value === 'object'\<close> holds of objects, arrays and \<^verbatim>\<open>null\<close>.
  \<^verbatim>\<open>Object.keys\<close> of an array lists its indices in decimal.
\<close>

definition typeof_object :: "jsval \<Rightarrow> bool" where
  "typeof_object v = (case v of JObj _ \<Rightarrow> True | JArr _ \<Rightarrow> True | JNull \<Rightarrow> True | _ \<Rightarrow> False)"

definition own_properties :: "jsval \<Rightarrow> obj" where
  "own_properties v =
     (case v of
        JObj ob \<Rightarrow> map (\<lambda>k. (k, obj_get ob k)) (obj_keys ob)
      | JArr xs \<Rightarrow> zip (map decimal [0 ..< length xs]) xs
      | _ \<Rightarrow> [])"

text \<open>
  \<^verbatim>\<open>
  function kebabify (object) {
    return _.cloneDeepWith(object, (value) => {
      if (!value || typeof value !== 'object') return value

      return Object.keys(value).reduce(function (newValue, key) {
        newValue[_.kebabCase(key)] = value[key]
        return newValue
      }, {})
    })
  }
  \<close>
  \<^verbatim>\<open>_.kebabCase\<close> is lodash's; the model takes it as the parameter \<open>kebabCase\<close>.
\<close>

definition kebabify_customizer :: "(string \<Rightarrow> string) \<Rightarrow> jsval \<Rightarrow> jsval" where
  "kebabify_customizer kebabCase v =
     (if falsy v then v
      else if typeof_object v
      then JObj (foldl (\<lambda>newValue (key, x). obj_set (kebabCase key) x newValue) []
                   (own_properties v))
      else v)"

definition kebabify :: "(string \<Rightarrow> string) \<Rightarrow> jsval \<Rightarrow> jsval" where
  "kebabify kebabCase object = cloneDeepWith (kebabify_customizer kebabCase) object"

text \<open>
  The contract of the key normalizer in the specification's words: a structurally identical
  copy in which every mapping key, at every depth, is rewritten, and sequence elements and
  scalars are unchanged.
\<close>

fun spec_kebabify :: "(string \<Rightarrow> string) \<Rightarrow> jsval \<Rightarrow> jsval" where
  "spec_kebabify kebabCase (JArr xs) = JArr (map (spec_kebabify kebabCase) xs)"
| "spec_kebabify kebabCase (JObj ob) =
     JObj (map (\<lambda>(k, x). (kebabCase k, spec_kebabify kebabCase x)) ob)"
| "spec_kebabify kebabCase v = v"

text \<open>
  A key function for concrete runs. It follows lodash's \<^verbatim>\<open>_.kebabCase\<close> on keys made of
  ASCII letters, digits and separators in which no two capitals are adjacent and letters
  and digits are not mixed within a word: a word ends at a separator and before a capital,
  words are put in lower case and joined by dashes.
\<close>

definition is_upper :: "char \<Rightarrow> bool" where
  "is_upper c = (c \<in> set ''ABCDEFGHIJKLMNOPQRSTUVWXYZ'')"

definition is_alnum :: "char \<Rightarrow> bool" where
  "is_alnum c =
     (c \<in> set ''ABCDEFGHIJKLMNOPQRSTUVWXYZabcdefghijklmnopqrstuvwxyz0123456789'')"

definition to_lower :: "char \<Rightarrow> char" where
  "to_lower c =
     (case map_of (zip ''ABCDEFGHIJKLMNOPQRSTUVWXYZ'' ''abcdefghijklmnopqrstuvwxyz'') c of
        None \<Rightarrow> c | Some l \<Rightarrow> l)"

fun kebab_words :: "string \<Rightarrow> string \<Rightarrow> string list" where
  "kebab_words w [] = (if w = [] then [] else [w])"
| "kebab_words w (c # cs) =
     (if \<not> is_alnum c then (if w = [] then [] else [w]) @ kebab_words [] cs
      else if is_upper c then (if w = [] then [] else [w]) @ kebab_words [to_lower c] cs
      else kebab_words (w @ [c]) cs)"

definition kebabCase_ascii :: "string \<Rightarrow> string" where
  "kebabCase_ascii key = join_with ''-'' (kebab_words [] key)"

section \<open>Errors\<close>

text \<open>
  A \<^verbatim>\<open>TypeError\<close> is what the runtime and Node's \<^verbatim>\<open>path\<close> module throw on a value of
  the wrong shape; \<^verbatim>\<open>Error\<close> is the error the process driver builds from an exit status;
  a \<^verbatim>\<open>SystemError\<close> is an error reported by the file system, by the launch of a process
  or by the temporary-directory library, named by its code.
\<close>

datatype error = TypeError string | Error string | SystemError string

definition bindE :: "error + 'a \<Rightarrow> ('a \<Rightarrow> error + 'b) \<Rightarrow> error + 'b" where
  "bindE r f = (case r of Inl e \<Rightarrow> Inl e | Inr v \<Rightarrow> f v)"

section \<open>Node's \<^verbatim>\<open>path\<close> module (POSIX)\<close>

text \<open>
  The path functions are Node's, not the repository's. They are modelled on the POSIX
  flavour of the module: the separator \<^verbatim>\<open>path.sep\<close> is \<^verbatim>\<open>/\<close>, every function throws a
  \<^verbatim>\<open>TypeError\<close> on an argument that is not a string, and \<^verbatim>\<open>normalizeArray\<close> is the
  module's own helper that drops empty and \<^verbatim>\<open>.\<close> parts and resolves \<^verbatim>\<open>..\<close> parts.
\<close>

fun split_on :: "char \<Rightarrow> string \<Rightarrow> string list" where
  "split_on c [] = [[]]"
| "split_on c (x # xs) =
     (if x = c then [] # split_on c xs
      else (case split_on c xs of [] \<Rightarrow> [[x]] | y # ys \<Rightarrow> (x # y) # ys))"

fun normalizeArray :: "bool \<Rightarrow> string list \<Rightarrow> string list \<Rightarrow> string list" where
  "normalizeArray allowAboveRoot res [] = res"
| "normalizeArray allowAboveRoot res (p # parts) =
     (if p = [] then normalizeArray allowAboveRoot res parts
      else if p = ''.'' then normalizeArray allowAboveRoot res parts
      else if p = ''..'' then
        (if res \<noteq> [] \<and> last res \<noteq> ''..'' then normalizeArray allowAboveRoot (butlast res) parts
         else if allowAboveRoot then normalizeArray allowAboveRoot (res @ [''..'']) parts
         else normalizeArray allowAboveRoot res parts)
      else normalizeArray allowAboveRoot (res @ [p]) parts)"

text \<open>\<^verbatim>\<open>path.isAbsolute(path)\<close>, and \<^verbatim>\<open>_.endsWith(path, path.sep)\<close>.\<close>

definition isAbsolute :: "string \<Rightarrow> bool" where
  "isAbsolute path = (case path of [] \<Rightarrow> False | c # _ \<Rightarrow> c = CHR ''/'')"

definition endsWith_sep :: "string \<Rightarrow> bool" where
  "endsWith_sep path = (case rev path of [] \<Rightarrow> False | c # _ \<Rightarrow> c = CHR ''/'')"

definition path_normalize :: "string \<Rightarrow> string" where
  "path_normalize path =
     (let trailingSlash = endsWith_sep path;
          p1 = join_with ''/'' (normalizeArray (\<not> isAbsolute path) [] (split_on CHR ''/'' path));
          p2 = (if p1 = [] \<and> \<not> isAbsolute path then ''.'' else p1);
          p3 = (if p2 \<noteq> [] \<and> trailingSlash then p2 @ ''/'' else p2)
      in (if isAbsolute path then ''/'' else []) @ p3)"

text \<open>\<^verbatim>\<open>path.join(...segments)\<close>: the non-empty segments joined by \<^verbatim>\<open>/\<close>, normalized.\<close>

fun join_segments :: "string \<Rightarrow> jsval list \<Rightarrow> error + string" where
  "join_segments path [] = Inr path"
| "join_segments path (JStr segment # segments) =
     join_segments
       (if segment = [] then path else if path = [] then segment else path @ ''/'' @ segment)
       segments"
| "join_segments path (v # segments) = Inl (TypeError ''Path must be a string'')"

definition path_join :: "jsval list \<Rightarrow> error + string" where
  "path_join segments = bindE (join_segments [] segments) (\<lambda>path. Inr (path_normalize path))"

text \<open>
  \<^verbatim>\<open>path.resolve(path)\<close> with one argument: the path itself when it is absolute, else the
  path appended to the working directory of the process; normalized, without a trailing
  separator.
\<close>

definition path_resolve :: "string \<Rightarrow> jsval \<Rightarrow> error + string" where
  "path_resolve cwd v =
     (case v of
        JStr path \<Rightarrow>
          (let r1 = (if path = [] then [] else path @ ''/'');
               a1 = isAbsolute path;
               r2 = (if a1 \<or> cwd = [] then r1 else cwd @ ''/'' @ r1);
               a2 = (if a1 \<or> cwd = [] then a1 else isAbsolute cwd);
               body = join_with ''/'' (normalizeArray (\<not> a2) [] (split_on CHR ''/'' r2));
               resolved = (if a2 then ''/'' else []) @ body
           in Inr (if resolved = [] then ''.'' else resolved))
      | _ \<Rightarrow> Inl (TypeError ''Path must be a string''))"

text \<open>
  \<^verbatim>\<open>path.dirname(path)\<close>: trailing separators are skipped, then the last segment and
  the separator before it are cut off.
\<close>

definition path_dirname :: "string \<Rightarrow> string" where
  "path_dirname path =
     (if path = [] then ''.''
      else
        (let hasRoot = isAbsolute path;
             rest = dropWhile (\<lambda>c. c \<noteq> CHR ''/'') (dropWhile (\<lambda>c. c = CHR ''/'') (rev (tl path)))
         in if rest = [] then (if hasRoot then ''/'' else ''.'')
            else if hasRoot \<and> length rest = 1 then ''//''
            else take (length rest) path))"

section \<open>The path and option resolver\<close>

text \<open>
  \<^verbatim>\<open>
  function getOptionsWithDefaults (options) {
    let defaults = {
      'build-dir': path.join(options['working-dir'], 'build'),
      'repo-dir': path.join(options['working-dir'], 'repo'),
      'manifest-path': path.join(options['working-dir'], 'manifest.json'),
      'extra-flatpak-builder-args': [],
      'extra-flatpak-build-bundle-args': []
    }
    options = _.defaults({}, options, defaults)
    options['working-dir'] = path.resolve(options['working-dir'])
    options['build-dir'] = path.resolve(options['build-dir'])
    options['repo-dir'] = path.resolve(options['repo-dir'])
    options['manifest-path'] = path.resolve(options['manifest-path'])
    options['bundle-path'] = path.resolve(options['bundle-path'])
    return options
  }
  \<close>
  The working directory of the process, which \<^verbatim>\<open>path.resolve\<close> reads, is the
  parameter \<open>cwd\<close>.
\<close>

definition resolve_option :: "string \<Rightarrow> string \<Rightarrow> obj \<Rightarrow> error + obj" where
  "resolve_option cwd name options =
     bindE (path_resolve cwd (obj_get options name)) (\<lambda>p. Inr (obj_set name (JStr p) options))"

definition getOptionsWithDefaults :: "string \<Rightarrow> obj \<Rightarrow> error + obj" where
  "getOptionsWithDefaults cwd options =
     bindE (path_join [obj_get options ''working-dir'', JStr ''build'']) (\<lambda>build.
     bindE (path_join [obj_get options ''working-dir'', JStr ''repo'']) (\<lambda>repo.
     bindE (path_join [obj_get options ''working-dir'', JStr ''manifest.json'']) (\<lambda>manifest.
       (let defaults =
              [(''build-dir'', JStr build),
               (''repo-dir'', JStr repo),
               (''manifest-path'', JStr manifest),
               (''extra-flatpak-builder-args'', JArr []),
               (''extra-flatpak-build-bundle-args'', JArr [])];
            options1 = lodash_defaults [] [options, defaults]
        in bindE (resolve_option cwd ''working-dir'' options1) (\<lambda>options2.
           bindE (resolve_option cwd ''build-dir'' options2) (\<lambda>options3.
           bindE (resolve_option cwd ''repo-dir'' options3) (\<lambda>options4.
           bindE (resolve_option cwd ''manifest-path'' options4) (\<lambda>options5.
           resolve_option cwd ''bundle-path'' options5))))))))"

section \<open>\<^verbatim>\<open>JSON.stringify\<close>\<close>

text \<open>
  \<^verbatim>\<open>JSON.stringify(value, null, '  ')\<close> is the runtime's: the value as JSON text, each level
  indented by two spaces. A property whose value is \<^verbatim>\<open>undefined\<close> is left out, an
  \<^verbatim>\<open>undefined\<close> element of an array is printed as \<^verbatim>\<open>null\<close>, an empty array and an
  empty object are printed closed. In a string the quote, the backslash and the control
  characters are escaped.
\<close>

definition hex_char :: "nat \<Rightarrow> char" where
  "hex_char d = ''0123456789abcdef'' ! d"

definition json_escape :: "char \<Rightarrow> string" where
  "json_escape c =
     (if c = CHR 0x22 then [CHR 0x5C, CHR 0x22]
      else if c = CHR 0x5C then [CHR 0x5C, CHR 0x5C]
      else if c = CHR 0x08 then [CHR 0x5C, CHR ''b'']
      else if c = CHR 0x0C then [CHR 0x5C, CHR ''f'']
      else if c = CHR 0x0A then [CHR 0x5C, CHR ''n'']
      else if c = CHR 0x0D then [CHR 0x5C, CHR ''r'']
      else if c = CHR 0x09 then [CHR 0x5C, CHR ''t'']
      else if (of_char c :: nat) < 32
      then [CHR 0x5C, CHR ''u'', CHR ''0'', CHR ''0'',
            hex_char (of_char c div 16), hex_char (of_char c mod 16)]
      else [c])"

definition json_quote :: "string \<Rightarrow> string" where
  "json_quote cs = [CHR 0x22] @ concat (map json_escape cs) @ [CHR 0x22]"

definition json_indent :: "nat \<Rightarrow> string" where
  "json_indent level = concat (replicate level ''  '')"

fun json_text :: "nat \<Rightarrow> jsval \<Rightarrow> string" where
  "json_text level JUndefined = ''null''"
| "json_text level JNull = ''null''"
| "json_text level (JBool b) = (if b then ''true'' else ''false'')"
| "json_text level (JNum i) = decimal_int i"
| "json_text level (JStr cs) = json_quote cs"
| "json_text level (JArr xs) =
     (if xs = [] then ''[]''
      else ''['' @ [CHR 0x0A] @
           join_with ('','' @ [CHR 0x0A])
             (map (\<lambda>x. json_indent (Suc level) @ json_text (Suc level) x) xs) @
           [CHR 0x0A] @ json_indent level @ '']'')"
| "json_text level (JObj ob) =
     (if filter (\<lambda>p. snd p \<noteq> JUndefined) ob = [] then ''{}''
      else ''{'' @ [CHR 0x0A] @
           join_with ('','' @ [CHR 0x0A])
             (map (\<lambda>p. json_indent (Suc level) @ json_quote (fst p) @ '': '' @
                         json_text (Suc level) (snd p))
                (filter (\<lambda>p. snd p \<noteq> JUndefined) ob)) @
           [CHR 0x0A] @ json_indent level @ ''}'')"

definition json_stringify :: "jsval \<Rightarrow> string" where
  "json_stringify v = json_text 0 v"

section \<open>The outside world\<close>

text \<open>
  The file system, the temporary-directory library and the external processes are outside
  the program. A run sees them through a handful of calls, each of which resolves or
  rejects; the record \<open>sys\<close> gives, for a world of type \<open>'w\<close>, what each call answers
  and how it changes the world. The model keeps, beside the world, the trace of the calls
  made so far, in the order in which they were made.
\<close>

datatype event =
    Mkdirs string
  | Copy string string
  | Symlink string string
  | WriteFile string string
  | Tmpdir
  | Spawn string "jsval list" jsval

text \<open>
  What a spawned child reports: an \<^verbatim>\<open>error\<close> event (the process could not be started),
  or a \<^verbatim>\<open>close\<close> event with the exit code, which is \<^verbatim>\<open>null\<close> for a child ended by a
  signal.
\<close>

datatype spawn_result = SpawnError error | Closed "int option"

record 'w sys =
  sys_cwd :: string
  sys_kebabCase :: "string \<Rightarrow> string"
  sys_stringify :: "jsval \<Rightarrow> string"
  sys_mkdirs :: "string \<Rightarrow> 'w \<Rightarrow> error option \<times> 'w"
  sys_copy :: "string \<Rightarrow> string \<Rightarrow> 'w \<Rightarrow> error option \<times> 'w"
  sys_symlink :: "string \<Rightarrow> string \<Rightarrow> 'w \<Rightarrow> error option \<times> 'w"
  sys_writeFile :: "string \<Rightarrow> string \<Rightarrow> 'w \<Rightarrow> error option \<times> 'w"
  sys_tmpdir :: "'w \<Rightarrow> (error + string) \<times> 'w"
  sys_spawn :: "string \<Rightarrow> jsval list \<Rightarrow> jsval \<Rightarrow> 'w \<Rightarrow> spawn_result \<times> 'w"

record 'w st =
  world :: 'w
  trace :: "event list"

text \<open>
  A promise that carries no value: run from a state, it settles with \<open>None\<close> (resolved)
  or \<open>Some e\<close> (rejected with \<open>e\<close>) and leaves a state. \<open>and_then\<close> is
  \<^verbatim>\<open>p.then(q)\<close>: \<open>q\<close> runs only when \<open>p\<close> has resolved.
\<close>

type_synonym 'w promise = "'w st \<Rightarrow> error option \<times> 'w st"

definition and_then :: "'w promise \<Rightarrow> 'w promise \<Rightarrow> 'w promise" where
  "and_then p q s = (case p s of (None, s') \<Rightarrow> q s' | (Some e, s') \<Rightarrow> (Some e, s'))"

definition log_call :: "event \<Rightarrow> 'w \<Rightarrow> 'w st \<Rightarrow> 'w st" where
  "log_call ev w s = \<lparr>world = w, trace = trace s @ [ev]\<rparr>"

text \<open>The promisified library calls of the source: \<^verbatim>\<open>mkdirs\<close>, \<^verbatim>\<open>copy\<close>,
  \<^verbatim>\<open>symlink\<close>, \<^verbatim>\<open>writeFile\<close>, \<^verbatim>\<open>tmpdir\<close>.\<close>

definition mkdirs :: "'w sys \<Rightarrow> string \<Rightarrow> 'w promise" where
  "mkdirs sys dir s =
     (case sys_mkdirs sys dir (world s) of (r, w) \<Rightarrow> (r, log_call (Mkdirs dir) w s))"

definition copy :: "'w sys \<Rightarrow> string \<Rightarrow> string \<Rightarrow> 'w promise" where
  "copy sys source dest s =
     (case sys_copy sys source dest (world s) of (r, w) \<Rightarrow> (r, log_call (Copy source dest) w s))"

definition symlink :: "'w sys \<Rightarrow> string \<Rightarrow> string \<Rightarrow> 'w promise" where
  "symlink sys target dest s =
     (case sys_symlink sys target dest (world s) of
        (r, w) \<Rightarrow> (r, log_call (Symlink target dest) w s))"

definition writeFile :: "'w sys \<Rightarrow> string \<Rightarrow> string \<Rightarrow> 'w promise" where
  "writeFile sys file text s =
     (case sys_writeFile sys file text (world s) of
        (r, w) \<Rightarrow> (r, log_call (WriteFile file text) w s))"

definition tmpdir :: "'w sys \<Rightarrow> 'w st \<Rightarrow> (error + string) \<times> 'w st" where
  "tmpdir sys s = (case sys_tmpdir sys (world s) of (r, w) \<Rightarrow> (r, log_call Tmpdir w s))"

section \<open>The process driver\<close>

text \<open>
  \<^verbatim>\<open>
  function spawnWithLogging (options, command, args) {
    return new Promise(function (resolve, reject) {
      logger(`$ ${command} ${args.join(' ')}`)
      let child = childProcess.spawn(command, args, { cwd: options['working-dir'] })
      child.stdout.on('data', (data) => { logger(`1> ${data}`) })
      child.stderr.on('data', (data) => { logger(`2> ${data}`) })
      child.on('error', (error) => { reject(error) })
      child.on('close', (code) => {
        if (code !== 0) {
          reject(new Error(`${command} failed with status code ${code}`))
        }
        resolve()
      })
    })
  }
  \<close>
  The diagnostic channel is not modelled.
\<close>

definition code_string :: "int option \<Rightarrow> string" where
  "code_string code = (case code of None \<Rightarrow> ''null'' | Some c \<Rightarrow> decimal_int c)"

definition spawnWithLogging :: "'w sys \<Rightarrow> obj \<Rightarrow> string \<Rightarrow> jsval list \<Rightarrow> 'w promise" where
  "spawnWithLogging sys options command args s =
     (case sys_spawn sys command args (obj_get options ''working-dir'') (world s) of
        (r, w) \<Rightarrow>
          (let s' = log_call (Spawn command args (obj_get options ''working-dir'')) w s
           in case r of
                SpawnError e \<Rightarrow> (Some e, s')
              | Closed code \<Rightarrow>
                  (if code \<noteq> Some 0
                   then (Some (Error (command @ '' failed with status code '' @ code_string code)), s')
                   else (None, s'))))"

text \<open>
  \<^verbatim>\<open>
  function addCommandLineOption (args, name, value) {
    if (!value) return
    if (value === true) {
      args.push(`--${name}`)
      return
    }
    args.push(`--${name}=${value}`)
  }
  \<close>
  The source pushes onto the array it is given; the model returns the new array.
\<close>

definition addCommandLineOption :: "jsval list \<Rightarrow> string \<Rightarrow> jsval \<Rightarrow> jsval list" where
  "addCommandLineOption args name v =
     (if falsy v then args
      else if v = JBool True then args @ [JStr (''--'' @ name)]
      else args @ [JStr (''--'' @ name @ ''='' @ to_string v)])"

text \<open>
  \<^verbatim>\<open>array.concat(value)\<close> leaves \<^verbatim>\<open>array\<close> as it is and returns a new array: the
  elements of \<^verbatim>\<open>array\<close> followed by those of \<^verbatim>\<open>value\<close> when that is an array, and by
  \<^verbatim>\<open>value\<close> itself otherwise.
\<close>

definition array_concat :: "jsval list \<Rightarrow> jsval \<Rightarrow> jsval list" where
  "array_concat array v = (case v of JArr xs \<Rightarrow> array @ xs | _ \<Rightarrow> array @ [v])"

text \<open>
  \<^verbatim>\<open>
  function flatpakBuilder (options, finish) {
    let args = []
    addCommandLineOption(args, 'arch', options['arch'])
    addCommandLineOption(args, 'gpg-sign', options['gpg-sign'])
    addCommandLineOption(args, 'gpg-homedir', options['gpg-homedir'])
    addCommandLineOption(args, 'subject', options['subject'])
    addCommandLineOption(args, 'body', options['body'])
    addCommandLineOption(args, 'repo', options['repo-dir'])
    addCommandLineOption(args, 'force-clean', true)
    if (!finish) {
      addCommandLineOption(args, 'build-only', true)
    } else {
      addCommandLineOption(args, 'finish-only', true)
    }
    args.concat(options['extra-flatpak-builder-args'])

    args.push(options['build-dir'])
    args.push(options['manifest-path'])
    return spawnWithLogging(options, 'flatpak-builder', args)
  }
  \<close>
  The statement \<^verbatim>\<open>args.concat(...)\<close> computes a new array and drops it: \<open>args7\<close> goes
  on unchanged, and \<open>dropped\<close> is used nowhere.
\<close>

definition flatpakBuilder_args :: "obj \<Rightarrow> bool \<Rightarrow> jsval list" where
  "flatpakBuilder_args options finish =
     (let args0 = [];
          args1 = addCommandLineOption args0 ''arch'' (obj_get options ''arch'');
          args2 = addCommandLineOption args1 ''gpg-sign'' (obj_get options ''gpg-sign'');
          args3 = addCommandLineOption args2 ''gpg-homedir'' (obj_get options ''gpg-homedir'');
          args4 = addCommandLineOption args3 ''subject'' (obj_get options ''subject'');
          args5 = addCommandLineOption args4 ''body'' (obj_get options ''body'');
          args6 = addCommandLineOption args5 ''repo'' (obj_get options ''repo-dir'');
          args7 = addCommandLineOption args6 ''force-clean'' (JBool True);
          args8 = (if \<not> finish then addCommandLineOption args7 ''build-only'' (JBool True)
                   else addCommandLineOption args7 ''finish-only'' (JBool True));
          dropped = array_concat args8 (obj_get options ''extra-flatpak-builder-args'');
          args9 = args8 @ [obj_get options ''build-dir''];
          args10 = args9 @ [obj_get options ''manifest-path'']
      in args10)"

definition flatpakBuilder :: "'w sys \<Rightarrow> obj \<Rightarrow> bool \<Rightarrow> 'w promise" where
  "flatpakBuilder sys options finish =
     spawnWithLogging sys options ''flatpak-builder'' (flatpakBuilder_args options finish)"

text \<open>
  \<^verbatim>\<open>
  function flatpakBuildBundle (options, manifest) {
    if (!options['bundle-path']) return

    let args = ['build-bundle']
    addCommandLineOption(args, 'arch', options['arch'])
    addCommandLineOption(args, 'gpg-sign', options['gpg-sign'])
    addCommandLineOption(args, 'gpg-homedir', options['gpg-homedir'])
    addCommandLineOption(args, 'repo-url', options['bundle-repo-url'])
    if (options['build-runtime']) addCommandLineOption(args, 'runtime', true)
    args.concat(options['extra-flatpak-build-bundle-args'])

    args.push(options['repo-dir'])
    args.push(options['bundle-path'])
    args.push(manifest['id'])
    args.push(manifest['branch'])
    return mkdirs(path.dirname(options['bundle-path']))
      .then(function () {
        return spawnWithLogging(options, 'flatpak', args)
      })
  }
  \<close>
\<close>

definition flatpakBuildBundle_args :: "obj \<Rightarrow> obj \<Rightarrow> jsval list" where
  "flatpakBuildBundle_args options manifest =
     (let args0 = [JStr ''build-bundle''];
          args1 = addCommandLineOption args0 ''arch'' (obj_get options ''arch'');
          args2 = addCommandLineOption args1 ''gpg-sign'' (obj_get options ''gpg-sign'');
          args3 = addCommandLineOption args2 ''gpg-homedir'' (obj_get options ''gpg-homedir'');
          args4 = addCommandLineOption args3 ''repo-url'' (obj_get options ''bundle-repo-url'');
          args5 = (if falsy (obj_get options ''build-runtime'') then args4
                   else addCommandLineOption args4 ''runtime'' (JBool True));
          dropped = array_concat args5 (obj_get options ''extra-flatpak-build-bundle-args'');
          args6 = args5 @ [obj_get options ''repo-dir''];
          args7 = args6 @ [obj_get options ''bundle-path''];
          args8 = args7 @ [obj_get manifest ''id''];
          args9 = args8 @ [obj_get manifest ''branch'']
      in args9)"

definition flatpakBuildBundle :: "'w sys \<Rightarrow> obj \<Rightarrow> obj \<Rightarrow> 'w promise" where
  "flatpakBuildBundle sys options manifest s =
     (if falsy (obj_get options ''bundle-path'') then (None, s)
      else
        (case obj_get options ''bundle-path'' of
           JStr bundle_path \<Rightarrow>
             and_then (mkdirs sys (path_dirname bundle_path))
               (spawnWithLogging sys options ''flatpak'' (flatpakBuildBundle_args options manifest)) s
         | _ \<Rightarrow> (Some (TypeError ''Path must be a string''), s)))"

section \<open>The workspace preparer\<close>

text \<open>
  \<^verbatim>\<open>
  function ensureWorkingDir (options) {
    if (!options['working-dir']) {
      return tmpdir({ dir: '/var/tmp', unsafeCleanup: true })
        .then(function (dir) {
          options['working-dir'] = dir
        })
    } else {
      return mkdirs(options['working-dir'])
    }
  }
  \<close>
  The source stores the new directory into the options object it was given; the model
  returns the options. fs-extra's \<^verbatim>\<open>mkdirs\<close> resolves its argument with
  \<^verbatim>\<open>path.resolve\<close> before it touches the file system, so a working directory that is
  not a string rejects with a \<^verbatim>\<open>TypeError\<close>.
\<close>

definition ensureWorkingDir :: "'w sys \<Rightarrow> obj \<Rightarrow> 'w st \<Rightarrow> error option \<times> obj \<times> 'w st" where
  "ensureWorkingDir sys options s =
     (if falsy (obj_get options ''working-dir'')
      then (case tmpdir sys s of
              (Inl e, s') \<Rightarrow> (Some e, options, s')
            | (Inr dir, s') \<Rightarrow> (None, obj_set ''working-dir'' (JStr dir) options, s'))
      else (case obj_get options ''working-dir'' of
              JStr dir \<Rightarrow> (case mkdirs sys dir s of (r, s') \<Rightarrow> (r, options, s'))
            | _ \<Rightarrow> (Some (TypeError ''Path must be a string''), options, s)))"

text \<open>
  \<^verbatim>\<open>
  function writeJsonFile (options, manifest) {
    return writeFile(options['manifest-path'], JSON.stringify(manifest, null, '  '))
  }
  \<close>
  \<^verbatim>\<open>JSON.stringify\<close> is the parameter \<open>sys_stringify\<close>. In a run the manifest path is
  a string, since the option resolver has resolved it.
\<close>

definition writeJsonFile :: "'w sys \<Rightarrow> obj \<Rightarrow> obj \<Rightarrow> 'w promise" where
  "writeJsonFile sys options manifest s =
     (case obj_get options ''manifest-path'' of
        JStr file \<Rightarrow> writeFile sys file (sys_stringify sys (JObj manifest)) s
      | _ \<Rightarrow> (Some (TypeError ''Path must be a string''), s))"

section \<open>The file staging engine\<close>

text \<open>
  \<^verbatim>\<open>value[i]\<close> for an index: reading a property of \<^verbatim>\<open>undefined\<close> or \<^verbatim>\<open>null\<close>
  throws; an array and a string answer with their element, an object with its property
  of that name, anything else with \<^verbatim>\<open>undefined\<close>.
\<close>

definition js_index :: "jsval \<Rightarrow> nat \<Rightarrow> error + jsval" where
  "js_index v i =
     (case v of
        JUndefined \<Rightarrow> Inl (TypeError ''Cannot read property of undefined'')
      | JNull \<Rightarrow> Inl (TypeError ''Cannot read property of null'')
      | JArr xs \<Rightarrow> Inr (if i < length xs then xs ! i else JUndefined)
      | JStr cs \<Rightarrow> Inr (if i < length cs then JStr [cs ! i] else JUndefined)
      | JObj ob \<Rightarrow> Inr (obj_get ob (decimal i))
      | _ \<Rightarrow> Inr JUndefined)"

text \<open>
  \<^verbatim>\<open>items.map(callback)\<close> where the callback computes the paths of a pair, which may
  throw, and starts an asynchronous job for it: \<open>start_all\<close> gives the jobs started
  before the first throw, and the error thrown, if any.

  Each job is \<^verbatim>\<open>mkdirs(dir).then(continuation)\<close>. The callback calls \<^verbatim>\<open>mkdirs\<close> at
  once, so \<^verbatim>\<open>map\<close> makes the \<^verbatim>\<open>mkdirs\<close> calls of all the pairs, in the order of the
  list, before any of them has answered; the continuation of a job runs after its own
  \<^verbatim>\<open>mkdirs\<close> has resolved, and never when it has rejected. \<^verbatim>\<open>Promise.all\<close> lets every
  job run, whether or not another one has failed, and rejects with the rejection that comes
  first in time.

  The source fixes no order among the answers and the continuations of different pairs.
  The model takes one schedule that it allows: \<open>begin_all\<close> makes the first call of every
  job in list order, \<open>continue_all\<close> then runs the continuations of the jobs that
  resolved, in list order, and \<open>run_all\<close> settles with the first rejection in that
  order. What is proved of a phase below does not rest on the order across pairs.
\<close>

fun start_all :: "('a \<Rightarrow> error + 'j) \<Rightarrow> 'a list \<Rightarrow> 'j list \<times> error option" where
  "start_all f [] = ([], None)"
| "start_all f (x # xs) =
     (case f x of
        Inl e \<Rightarrow> ([], Some e)
      | Inr j \<Rightarrow> (case start_all f xs of (js, thrown) \<Rightarrow> (j # js, thrown)))"

fun begin_all ::
  "('j \<Rightarrow> 'w promise) \<Rightarrow> 'j list \<Rightarrow> 'w st \<Rightarrow> ('j \<times> error option) list \<times> 'w st"
where
  "begin_all first [] s = ([], s)"
| "begin_all first (j # js) s =
     (case first j s of
        (r, s') \<Rightarrow> (case begin_all first js s' of (jrs, s'') \<Rightarrow> ((j, r) # jrs, s'')))"

fun continue_all ::
  "('j \<Rightarrow> 'w promise) \<Rightarrow> ('j \<times> error option) list \<Rightarrow> 'w st \<Rightarrow> error option list \<times> 'w st"
where
  "continue_all cont [] s = ([], s)"
| "continue_all cont ((j, r) # jrs) s =
     (case r of
        Some e \<Rightarrow> continue_all cont jrs s
      | None \<Rightarrow>
          (case cont j s of
             (r', s') \<Rightarrow> (case continue_all cont jrs s' of (rs, s'') \<Rightarrow> (r' # rs, s''))))"

fun first_rejection :: "error option list \<Rightarrow> error option" where
  "first_rejection [] = None"
| "first_rejection (None # rs) = first_rejection rs"
| "first_rejection (Some e # rs) = Some e"

definition run_all :: "('j \<Rightarrow> 'w promise) \<Rightarrow> ('j \<Rightarrow> 'w promise) \<Rightarrow> 'j list \<Rightarrow> 'w promise" where
  "run_all first cont jobs s =
     (case begin_all first jobs s of
        (jrs, s1) \<Rightarrow>
          (case continue_all cont jrs s1 of
             (rs, s2) \<Rightarrow> (first_rejection (map snd jrs @ rs), s2)))"

text \<open>A throw inside \<^verbatim>\<open>map\<close> is the rejection of the phase; the jobs started before it
  run all the same.\<close>

definition map_jobs ::
  "jsval \<Rightarrow> (jsval \<Rightarrow> error + 'j) \<Rightarrow> ('j \<Rightarrow> 'w promise) \<Rightarrow> ('j \<Rightarrow> 'w promise) \<Rightarrow> 'w promise"
where
  "map_jobs items start first cont s =
     (case items of
        JArr xs \<Rightarrow>
          (case start_all start xs of
             (jobs, thrown) \<Rightarrow>
               (case run_all first cont jobs s of
                  (r, s') \<Rightarrow> ((case thrown of Some e \<Rightarrow> Some e | None \<Rightarrow> r), s')))
      | _ \<Rightarrow> (Some (TypeError ''map is not a function''), s))"

text \<open>
  \<^verbatim>\<open>
  function copyFiles (options, manifest) {
    let copies = manifest['files'].map(function (sourceDest) {
      let source = path.resolve(sourceDest[0])
      let dest = path.join(options['build-dir'], 'files', sourceDest[1])
      let dir = dest
      if (!_.endsWith(dir, path.sep)) dir = path.dirname(dir)

      logger(`Copying ${source} to ${dest}`)
      return mkdirs(dir)
        .then(function () {
          return copy(source, dest)
        })
    })
    return Promise.all(copies)
  }
  \<close>
  A copy job is the triple of \<^verbatim>\<open>source\<close>, \<^verbatim>\<open>dest\<close> and \<^verbatim>\<open>dir\<close>: its first call is
  \<^verbatim>\<open>mkdirs(dir)\<close>, its continuation \<^verbatim>\<open>copy(source, dest)\<close>.
\<close>

definition copy_job :: "'w sys \<Rightarrow> obj \<Rightarrow> jsval \<Rightarrow> error + string \<times> string \<times> string" where
  "copy_job sys options sourceDest =
     bindE (js_index sourceDest 0) (\<lambda>s0.
     bindE (path_resolve (sys_cwd sys) s0) (\<lambda>source.
     bindE (js_index sourceDest 1) (\<lambda>s1.
     bindE (path_join [obj_get options ''build-dir'', JStr ''files'', s1]) (\<lambda>dest.
       Inr (source, dest, if \<not> endsWith_sep dest then path_dirname dest else dest)))))"

definition job_mkdirs :: "'w sys \<Rightarrow> string \<times> string \<times> string \<Rightarrow> 'w promise" where
  "job_mkdirs sys job = (case job of (origin, dest, dir) \<Rightarrow> mkdirs sys dir)"

definition copy_then :: "'w sys \<Rightarrow> string \<times> string \<times> string \<Rightarrow> 'w promise" where
  "copy_then sys job = (case job of (source, dest, dir) \<Rightarrow> copy sys source dest)"

definition copyFiles :: "'w sys \<Rightarrow> obj \<Rightarrow> obj \<Rightarrow> 'w promise" where
  "copyFiles sys options manifest =
     map_jobs (obj_get manifest ''files'') (copy_job sys options)
       (job_mkdirs sys) (copy_then sys)"

text \<open>
  \<^verbatim>\<open>
  function createSymlinks (options, manifest) {
    let links = manifest['symlinks'].map(function (targetDest) {
      let target = path.join('/app', targetDest[0])
      let dest = path.join(options['build-dir'], 'files', targetDest[1])
      let dir = path.dirname(dest)

      logger(`Symlinking ${target} at ${dest}`)
      return mkdirs(dir)
        .then(function () {
          symlink(target, dest)
        })
    })
    return Promise.all(links)
  }
  \<close>
  The function passed to \<^verbatim>\<open>then\<close> calls \<^verbatim>\<open>symlink\<close> and returns nothing: the link is
  made (or not), and the promise of the job resolves without waiting for it and whatever
  it answers. The model makes the call at that point and drops its result.
\<close>

definition symlink_job :: "obj \<Rightarrow> jsval \<Rightarrow> error + string \<times> string \<times> string" where
  "symlink_job options targetDest =
     bindE (js_index targetDest 0) (\<lambda>t0.
     bindE (path_join [JStr ''/app'', t0]) (\<lambda>target.
     bindE (js_index targetDest 1) (\<lambda>t1.
     bindE (path_join [obj_get options ''build-dir'', JStr ''files'', t1]) (\<lambda>dest.
       Inr (target, dest, path_dirname dest)))))"

definition symlink_then :: "'w sys \<Rightarrow> string \<times> string \<times> string \<Rightarrow> 'w promise" where
  "symlink_then sys job s =
     (case job of
        (target, dest, dir) \<Rightarrow> (case symlink sys target dest s of (r, s') \<Rightarrow> (None, s')))"

definition createSymlinks :: "'w sys \<Rightarrow> obj \<Rightarrow> obj \<Rightarrow> 'w promise" where
  "createSymlinks sys options manifest =
     map_jobs (obj_get manifest ''symlinks'') (symlink_job options)
       (job_mkdirs sys) (symlink_then sys)"

section \<open>The pipeline orchestrator\<close>

text \<open>
  \<^verbatim>\<open>
  exports.bundle = function (manifest, options, callback) {
    manifest = kebabify(manifest)
    options = kebabify(options)

    return ensureWorkingDir(options)
      .then(() => {
        options = getOptionsWithDefaults(options)
        manifest = getManifestWithDefaults(manifest)

        logger(`Using manifest...\n${JSON.stringify(manifest, null, '  ')}`)
        logger(`Using options...\n${JSON.stringify(options, null, '  ')}`)
      })
      .then(() => writeJsonFile(options, manifest))
      .then(() => flatpakBuilder(options, false))
      .then(() => copyFiles(options, manifest))
      .then(() => createSymlinks(options, manifest))
      .then(() => flatpakBuilder(options, true))
      .then(() => flatpakBuildBundle(options, manifest))
      .then(function () {
        callback(null, options, manifest)
      }, function (error) {
        callback(error)
      })
  }
  \<close>
  The variables \<^verbatim>\<open>options\<close> and \<^verbatim>\<open>manifest\<close> of the closure and the state of the
  world make up a \<open>run\<close>. A stage takes a run and settles; \<open>chain\<close> is the chain of
  \<^verbatim>\<open>then\<close>: a stage runs only when every stage before it has resolved, and the first
  rejection is the rejection of the chain. The manifest and the options are mappings.
\<close>

record 'w run =
  run_options :: obj
  run_manifest :: obj
  run_st :: "'w st"

type_synonym 'w stage = "'w run \<Rightarrow> error option \<times> 'w run"

fun chain :: "'w stage list \<Rightarrow> 'w stage" where
  "chain [] r = (None, r)"
| "chain (stage # stages) r =
     (case stage r of (Some e, r') \<Rightarrow> (Some e, r') | (None, r') \<Rightarrow> chain stages r')"

definition in_run :: "(obj \<Rightarrow> obj \<Rightarrow> 'w promise) \<Rightarrow> 'w stage" where
  "in_run f r =
     (case f (run_options r) (run_manifest r) (run_st r) of (e, s) \<Rightarrow> (e, r\<lparr>run_st := s\<rparr>))"

definition stage_ensureWorkingDir :: "'w sys \<Rightarrow> 'w stage" where
  "stage_ensureWorkingDir sys r =
     (case ensureWorkingDir sys (run_options r) (run_st r) of
        (e, options, s) \<Rightarrow> (e, r\<lparr>run_options := options, run_st := s\<rparr>))"

definition stage_defaults :: "'w sys \<Rightarrow> 'w stage" where
  "stage_defaults sys r =
     (case getOptionsWithDefaults (sys_cwd sys) (run_options r) of
        Inl e \<Rightarrow> (Some e, r)
      | Inr options \<Rightarrow>
          (None, r\<lparr>run_options := options,
                    run_manifest := getManifestWithDefaults (run_manifest r)\<rparr>))"

definition bundle_stages :: "'w sys \<Rightarrow> 'w stage list" where
  "bundle_stages sys =
     [stage_ensureWorkingDir sys,
      stage_defaults sys,
      in_run (writeJsonFile sys),
      in_run (\<lambda>options manifest. flatpakBuilder sys options False),
      in_run (copyFiles sys),
      in_run (createSymlinks sys),
      in_run (\<lambda>options manifest. flatpakBuilder sys options True),
      in_run (flatpakBuildBundle sys)]"

text \<open>\<open>kebabify\<close> turns a mapping into a mapping; \<open>the_obj\<close> reads it back.\<close>

definition the_obj :: "jsval \<Rightarrow> obj" where
  "the_obj v = (case v of JObj ob \<Rightarrow> ob | _ \<Rightarrow> [])"

definition start_run :: "'w sys \<Rightarrow> obj \<Rightarrow> obj \<Rightarrow> 'w \<Rightarrow> 'w run" where
  "start_run sys manifest options w =
     \<lparr>run_options = the_obj (kebabify (sys_kebabCase sys) (JObj options)),
      run_manifest = the_obj (kebabify (sys_kebabCase sys) (JObj manifest)),
      run_st = \<lparr>world = w, trace = []\<rparr>\<rparr>"

text \<open>
  What the callback receives, once: the error, or the final options and manifest; with it
  the model gives the state in which the run ends.
\<close>

definition exports_bundle :: "'w sys \<Rightarrow> obj \<Rightarrow> obj \<Rightarrow> 'w \<Rightarrow> (error + obj \<times> obj) \<times> 'w st" where
  "exports_bundle sys manifest options w =
     (case chain (bundle_stages sys) (start_run sys manifest options w) of
        (Some e, r) \<Rightarrow> (Inl e, run_st r)
      | (None, r) \<Rightarrow> (Inr (run_options r, run_manifest r), run_st r))"

section \<open>A world that answers from a script\<close>

text \<open>
  For concrete runs: a system whose calls leave the world as it is and answer as a given
  table says, call by call. \<open>faults\<close> gives the error of a file-system call (none: it
  succeeds), \<open>exits\<close> what a spawned command reports.
\<close>

definition scripted :: "string \<Rightarrow> (event \<Rightarrow> error option) \<Rightarrow> (string \<Rightarrow> jsval list \<Rightarrow> spawn_result) \<Rightarrow> 'w sys" where
  "scripted cwd faults exits =
     \<lparr>sys_cwd = cwd,
      sys_kebabCase = kebabCase_ascii,
      sys_stringify = json_stringify,
      sys_mkdirs = (\<lambda>dir w. (faults (Mkdirs dir), w)),
      sys_copy = (\<lambda>source dest w. (faults (Copy source dest), w)),
      sys_symlink = (\<lambda>target dest w. (faults (Symlink target dest), w)),
      sys_writeFile = (\<lambda>file text w. (faults (WriteFile file text), w)),
      sys_tmpdir = (\<lambda>w. (case faults Tmpdir of Some e \<Rightarrow> Inl e | None \<Rightarrow> Inr ''/var/tmp/tmp-1'', w)),
      sys_spawn = (\<lambda>command args cwd w. (exits command args, w))\<rparr>"

text \<open>The commands spawned in a trace, each with its argument list, in order.\<close>

definition spawned :: "event list \<Rightarrow> (string \<times> jsval list) list" where
  "spawned tr =
     concat (map (\<lambda>ev. case ev of Spawn command args cwd \<Rightarrow> [(command, args)] | _ \<Rightarrow> []) tr)"

section \<open>A file system for fs-extra's \<^verbatim>\<open>mkdirs\<close> and \<^verbatim>\<open>copy\<close>\<close>

text \<open>
  What the copy phase leaves on disk depends on what fs-extra's \<^verbatim>\<open>mkdirs\<close> and
  \<^verbatim>\<open>copy\<close> do, which are not the repository's. They are modelled on a file system
  that is a tree of regular files, each with its content, and directories, each with its
  entries. A path names the node reached from the root by its segments. The tree holds no
  symbolic links: a disk with links on it is outside the model.
\<close>

datatype node = File string | Dir "(string \<times> node) list"

definition fs_path :: "string \<Rightarrow> string \<Rightarrow> string list" where
  "fs_path cwd path =
     normalizeArray False []
       (split_on CHR ''/'' (if isAbsolute path then path else cwd @ ''/'' @ path))"

fun lstat :: "node \<Rightarrow> string list \<Rightarrow> node option" where
  "lstat n [] = Some n"
| "lstat n (name # names) =
     (case n of
        Dir entries \<Rightarrow>
          (case map_of entries name of None \<Rightarrow> None | Some child \<Rightarrow> lstat child names)
      | _ \<Rightarrow> None)"

text \<open>
  \<^verbatim>\<open>mkdirs(dir)\<close> makes the directory and every missing directory above it; it fails,
  and changes nothing, when a segment of the path exists and is not a directory.
\<close>

fun mkdirp :: "string list \<Rightarrow> node \<Rightarrow> error option \<times> node" where
  "mkdirp [] n =
     (case n of Dir entries \<Rightarrow> (None, n) | _ \<Rightarrow> (Some (SystemError ''EEXIST''), n))"
| "mkdirp (name # names) n =
     (case n of
        Dir entries \<Rightarrow>
          (case mkdirp names
                  (case map_of entries name of None \<Rightarrow> Dir [] | Some child \<Rightarrow> child) of
             (None, child') \<Rightarrow> (None, Dir (AList.update name child' entries))
           | (Some e, child') \<Rightarrow> (Some e, n))
      | _ \<Rightarrow> (Some (SystemError ''ENOTDIR''), n))"

definition fs_mkdirs :: "string \<Rightarrow> string \<Rightarrow> node \<Rightarrow> error option \<times> node" where
  "fs_mkdirs cwd dir root = mkdirp (fs_path cwd dir) root"

text \<open>
  \<^verbatim>\<open>copy(src, dest)\<close> puts the node at \<^verbatim>\<open>src\<close> at the path \<^verbatim>\<open>dest\<close> itself,
  overwriting: a file replaces a file and is an error on a directory (the
  library unlinks what is there, and a directory cannot be unlinked; its documentation
  says that \<^verbatim>\<open>dest\<close> cannot be a directory when \<^verbatim>\<open>src\<close> is a file); the entries of a
  directory are copied, one by one, into the directory at \<^verbatim>\<open>dest\<close>, which is made when
  it is missing. \<open>ncp_node n old\<close> gives what stands at \<^verbatim>\<open>dest\<close> after \<open>n\<close> has been
  copied onto \<open>old\<close>, and the first error met.
\<close>

fun ncp_node :: "node \<Rightarrow> node option \<Rightarrow> error option \<times> node option"
  and ncp_entries ::
    "(string \<times> node) list \<Rightarrow> (string \<times> node) list \<Rightarrow> error option \<times> (string \<times> node) list"
where
  "ncp_node (File text) None = (None, Some (File text))"
| "ncp_node (File text) (Some (Dir ds)) = (Some (SystemError ''EISDIR''), Some (Dir ds))"
| "ncp_node (File text) (Some (File old)) = (None, Some (File text))"
| "ncp_node (Dir es) None = (case ncp_entries es [] of (e, ds) \<Rightarrow> (e, Some (Dir ds)))"
| "ncp_node (Dir es) (Some (Dir ds)) =
     (case ncp_entries es ds of (e, ds') \<Rightarrow> (e, Some (Dir ds')))"
| "ncp_node (Dir es) (Some (File old)) =
     (if es = [] then (None, Some (File old))
      else (Some (SystemError ''ENOTDIR''), Some (File old)))"
| "ncp_entries [] ds = (None, ds)"
| "ncp_entries ((name, child) # es) ds =
     (case ncp_node child (map_of ds name) of
        (e1, r) \<Rightarrow>
          (case ncp_entries es (case r of None \<Rightarrow> ds | Some d \<Rightarrow> AList.update name d ds) of
             (e2, ds') \<Rightarrow> ((case e1 of Some e \<Rightarrow> Some e | None \<Rightarrow> e2), ds')))"

text \<open>\<open>alter names f root\<close> replaces what stands at the path by what \<open>f\<close> makes of it;
  the directory above must exist.\<close>

fun alter ::
  "string list \<Rightarrow> (node option \<Rightarrow> error option \<times> node option) \<Rightarrow> node \<Rightarrow> error option \<times> node"
where
  "alter [] f n = (case f (Some n) of (e, None) \<Rightarrow> (e, n) | (e, Some n') \<Rightarrow> (e, n'))"
| "alter (name # names) f n =
     (case n of
        Dir entries \<Rightarrow>
          (if names = []
           then (case f (map_of entries name) of
                   (e, None) \<Rightarrow> (e, n)
                 | (e, Some child') \<Rightarrow> (e, Dir (AList.update name child' entries)))
           else (case map_of entries name of
                   None \<Rightarrow> (Some (SystemError ''ENOENT''), n)
                 | Some child \<Rightarrow>
                     (case alter names f child of
                        (e, child') \<Rightarrow> (e, Dir (AList.update name child' entries)))))
      | _ \<Rightarrow> (Some (SystemError ''ENOTDIR''), n))"

text \<open>
  Before it copies, \<^verbatim>\<open>copy\<close> refuses a source and a destination that resolve to the
  same path, looks the source up, and makes the directory that is to hold the
  destination when that is missing: for a source that is a directory, \<^verbatim>\<open>dest\<close> without
  its last \<^verbatim>\<open>/\<close>-separated part, else \<^verbatim>\<open>path.dirname(dest)\<close>.
\<close>

definition copy_parent :: "node \<Rightarrow> string \<Rightarrow> string" where
  "copy_parent n dest =
     (case n of
        Dir es \<Rightarrow> join_with ''/'' (butlast (split_on CHR ''/'' dest))
      | File content \<Rightarrow> path_dirname dest)"

definition fs_copy :: "string \<Rightarrow> string \<Rightarrow> string \<Rightarrow> node \<Rightarrow> error option \<times> node" where
  "fs_copy cwd src dest root =
     (if fs_path cwd src = fs_path cwd dest
      then (Some (Error ''Source and destination must not be the same.''), root)
      else
        (case lstat root (fs_path cwd src) of
           None \<Rightarrow> (Some (SystemError ''ENOENT''), root)
         | Some n \<Rightarrow>
             (case (if lstat root (fs_path cwd (copy_parent n dest)) \<noteq> None then (None, root)
                    else fs_mkdirs cwd (copy_parent n dest) root) of
                (Some e, root') \<Rightarrow> (Some e, root')
              | (None, root') \<Rightarrow> alter (fs_path cwd dest) (ncp_node n) root')))"

text \<open>A system over the tree: \<^verbatim>\<open>mkdirs\<close> and \<^verbatim>\<open>copy\<close> are fs-extra's, the other calls
  are those of the system given.\<close>

definition on_disk :: "node sys \<Rightarrow> node sys" where
  "on_disk sys =
     sys\<lparr>sys_mkdirs := fs_mkdirs (sys_cwd sys), sys_copy := fs_copy (sys_cwd sys)\<rparr>"

section \<open>Facts about objects and \<^verbatim>\<open>_.defaults\<close>\<close>

lemma obj_get_set: "obj_get (obj_set k v ob) k' = (if k' = k then v else obj_get ob k')"
  by (simp add: obj_get_def obj_set_def update_conv')

lemma obj_keys_set: "set (obj_keys (obj_set k v ob)) = insert k (set (obj_keys ob))"
  by (simp add: obj_keys_def obj_set_def dom_update update_conv' flip: dom_map_of_conv_image_fst)

lemma obj_get_absent: "k \<notin> set (obj_keys ob) \<Longrightarrow> obj_get ob k = JUndefined"
  by (simp add: obj_get_def obj_keys_def map_of_eq_None_iff [THEN iffD2])

lemma obj_get_defaults_steps:
  "obj_get (foldl (defaults_step src) dest ks) k =
     (if obj_get dest k = JUndefined \<and> k \<in> set ks then obj_get src k else obj_get dest k)"
proof (induction ks arbitrary: dest)
  case Nil
  show ?case by simp
next
  case (Cons a ks)
  show ?case
    by (simp add: Cons.IH) (auto simp: defaults_step_def obj_get_set)
qed


lemma obj_keys_defaults_steps_mono:
  "set (obj_keys dest) \<subseteq> set (obj_keys (foldl (defaults_step src) dest ks))"
proof (induction ks arbitrary: dest)
  case Nil
  show ?case by simp
next
  case (Cons a ks)
  have "set (obj_keys dest) \<subseteq> set (obj_keys (defaults_step src dest a))"
    by (auto simp: defaults_step_def obj_keys_set)
  with Cons.IH [of "defaults_step src dest a"] show ?case
    by auto
qed


lemma obj_get_defaults_from:
  "obj_get (defaults_from dest src) k =
     (if obj_get dest k = JUndefined then obj_get src k else obj_get dest k)"
  by (auto simp: defaults_from_def obj_get_defaults_steps obj_get_absent)


lemma obj_keys_defaults_from_mono:
  "set (obj_keys dest) \<subseteq> set (obj_keys (defaults_from dest src))"
  by (simp add: defaults_from_def obj_keys_defaults_steps_mono)


lemma obj_get_nil: "obj_get [] k = JUndefined"
  by (simp add: obj_get_def)

lemma obj_get_defaults2:
  "obj_get (lodash_defaults [] [a, b]) k =
     (if obj_get a k = JUndefined then obj_get b k else obj_get a k)"
  by (simp add: lodash_defaults_def obj_get_defaults_from obj_get_nil)



section \<open>Claims about the manifest normalizer\<close>

text \<open>
  C10. A manifest that supplies a runtime-version value and no runtime keeps the caller's
  runtime-version: the default "1.4" never replaces a value that is already there.
\<close>

theorem runtime_version_preserved:
  assumes "obj_get manifest ''runtime-version'' = v" and "v \<noteq> JUndefined"
    and "obj_get manifest ''runtime'' = JUndefined"
  shows "obj_get (getManifestWithDefaults manifest) ''runtime-version'' = v"
  using assms by (simp add: getManifestWithDefaults_def obj_get_defaults2)

theorem runtime_version_preserved_witness:
  "obj_get (getManifestWithDefaults [(''id'', JStr ''org.foo.App''), (''runtime-version'', JStr ''1.6'')])
     ''runtime-version'' = JStr ''1.6''"
proof -
  have a: "obj_get [(''id'', JStr ''org.foo.App''), (''runtime-version'', JStr ''1.6'')]
             ''runtime-version'' = JStr ''1.6''"
    by (simp add: obj_get_def)
  have b: "JStr ''1.6'' \<noteq> JUndefined" by simp
  have c: "obj_get [(''id'', JStr ''org.foo.App''), (''runtime-version'', JStr ''1.6'')]
             ''runtime'' = JUndefined"
    by (simp add: obj_get_def)
  show ?thesis by (rule runtime_version_preserved [OF a b c])
qed






section \<open>Claims about the key normalizer\<close>

lemma kebabCase_fooBar: "kebabCase_ascii ''fooBar'' = ''foo-bar''"
  by (simp add: kebabCase_ascii_def is_alnum_def is_upper_def to_lower_def)

lemma kebabCase_bazQux: "kebabCase_ascii ''bazQux'' = ''baz-qux''"
  by (simp add: kebabCase_ascii_def is_alnum_def is_upper_def to_lower_def)

text \<open>
  The customizer answers an object with a new object, which lodash returns without
  descending into it: only the keys of the outermost mapping are rewritten, and the values
  under them are the input's own.
\<close>

lemma kebabify_obj:
  "kebabify kc (JObj ob) =
     JObj (foldl (\<lambda>newValue (key, x). obj_set (kc key) x newValue) []
             (map (\<lambda>k. (k, obj_get ob k)) (obj_keys ob)))"
  by (simp add: kebabify_def kebabify_customizer_def falsy_def typeof_object_def
        own_properties_def)

text \<open>
  C2. The claim asks for every mapping key at every depth to be rewritten. On
  \<^verbatim>\<open>{fooBar: {bazQux: 1}}\<close> the source rewrites the outer key and leaves the inner
  key as it is; the normalizer of the specification rewrites both.
\<close>

theorem kebabify_nested_key_kept:
  "kebabify kebabCase_ascii (JObj [(''fooBar'', JObj [(''bazQux'', JNum 1)])])
     = JObj [(''foo-bar'', JObj [(''bazQux'', JNum 1)])]
   \<and> spec_kebabify kebabCase_ascii (JObj [(''fooBar'', JObj [(''bazQux'', JNum 1)])])
     = JObj [(''foo-bar'', JObj [(''baz-qux'', JNum 1)])]"
  by (simp add: kebabify_obj obj_keys_def obj_get_def obj_set_def kebabCase_fooBar
        kebabCase_bazQux)

section \<open>Claims about the argument lists\<close>

text \<open>The extra arguments are read, appended to a copy of the list, and the copy is
  dropped: the argument lists do not depend on them.\<close>

lemma flatpakBuilder_args_extra:
  "flatpakBuilder_args (obj_set ''extra-flatpak-builder-args'' extra options) finish
     = flatpakBuilder_args options finish"
  by (simp add: flatpakBuilder_args_def obj_get_set Let_def)

lemma flatpakBuildBundle_args_extra:
  "flatpakBuildBundle_args (obj_set ''extra-flatpak-build-bundle-args'' extra options) manifest
     = flatpakBuildBundle_args options manifest"
  by (simp add: flatpakBuildBundle_args_def obj_get_set Let_def)

text \<open>
  C3. The claim places the extra arguments between the mode flag and the positional
  arguments. With \<^verbatim>\<open>extra-flatpak-builder-args = ['--ccache']\<close> and
  \<^verbatim>\<open>extra-flatpak-build-bundle-args = ['--oci']\<close> neither argument list of the source
  contains the extra argument.
\<close>

theorem extra_args_dropped:
  "flatpakBuilder_args
     [(''working-dir'', JStr ''/w''),
      (''bundle-path'', JStr ''/out/app.flatpak''),
      (''extra-flatpak-builder-args'', JArr [JStr ''--ccache'']),
      (''extra-flatpak-build-bundle-args'', JArr [JStr ''--oci'']),
      (''build-dir'', JStr ''/w/build''),
      (''repo-dir'', JStr ''/w/repo''),
      (''manifest-path'', JStr ''/w/manifest.json'')] False
     = [JStr ''--repo=/w/repo'', JStr ''--force-clean'', JStr ''--build-only'',
        JStr ''/w/build'', JStr ''/w/manifest.json'']
   \<and> flatpakBuildBundle_args
     [(''working-dir'', JStr ''/w''),
      (''bundle-path'', JStr ''/out/app.flatpak''),
      (''extra-flatpak-builder-args'', JArr [JStr ''--ccache'']),
      (''extra-flatpak-build-bundle-args'', JArr [JStr ''--oci'']),
      (''build-dir'', JStr ''/w/build''),
      (''repo-dir'', JStr ''/w/repo''),
      (''manifest-path'', JStr ''/w/manifest.json'')]
     [(''id'', JStr ''org.foo.App''), (''branch'', JStr ''master'')]
     = [JStr ''build-bundle'', JStr ''/w/repo'', JStr ''/out/app.flatpak'',
        JStr ''org.foo.App'', JStr ''master'']"
  by (simp add: flatpakBuilder_args_def flatpakBuildBundle_args_def addCommandLineOption_def
        falsy_def obj_get_def Let_def)

section \<open>Claims about the option resolver\<close>

lemma bindE_Inr [simp]: "bindE (Inr v) f = f v"
  by (simp add: bindE_def)

lemma bindE_Inl [simp]: "bindE (Inl e) f = Inl e"
  by (simp add: bindE_def)






lemma getOptionsWithDefaults_example:
  "getOptionsWithDefaults ''/home/u''
     [(''working-dir'', JStr ''work''), (''repo-dir'', JStr ''/srv/repo''),
      (''bundle-path'', JStr ''out/app.flatpak'')]
   = Inr [(''working-dir'', JStr ''/home/u/work''), (''repo-dir'', JStr ''/srv/repo''),
          (''bundle-path'', JStr ''/home/u/out/app.flatpak''),
          (''build-dir'', JStr ''/home/u/work/build''),
          (''manifest-path'', JStr ''/home/u/work/manifest.json''),
          (''extra-flatpak-builder-args'', JArr []),
          (''extra-flatpak-build-bundle-args'', JArr [])]"
  by (simp add: getOptionsWithDefaults_def path_join_def path_normalize_def isAbsolute_def
        endsWith_sep_def Let_def lodash_defaults_def defaults_from_def defaults_step_def
        obj_keys_def obj_get_def obj_set_def resolve_option_def path_resolve_def)



section \<open>Concrete runs\<close>

lemma kebabCase_workingDir: "kebabCase_ascii ''workingDir'' = ''working-dir''"
  by (simp add: kebabCase_ascii_def is_alnum_def is_upper_def to_lower_def)

lemma kebabCase_bundlePath: "kebabCase_ascii ''bundlePath'' = ''bundle-path''"
  by (simp add: kebabCase_ascii_def is_alnum_def is_upper_def to_lower_def)

lemma kebabCase_id: "kebabCase_ascii ''id'' = ''id''"
  by (simp add: kebabCase_ascii_def is_alnum_def is_upper_def to_lower_def)

lemma sys_scripted [simp]:
  "sys_cwd (scripted cwd faults exits) = cwd"
  "sys_kebabCase (scripted cwd faults exits) = kebabCase_ascii"
  "sys_stringify (scripted cwd faults exits) = json_stringify"
  "sys_mkdirs (scripted cwd faults exits) dir w = (faults (Mkdirs dir), w)"
  "sys_copy (scripted cwd faults exits) source dest w = (faults (Copy source dest), w)"
  "sys_symlink (scripted cwd faults exits) target dest w = (faults (Symlink target dest), w)"
  "sys_writeFile (scripted cwd faults exits) file text w = (faults (WriteFile file text), w)"
  "sys_spawn (scripted cwd faults exits) command args v w = (exits command args, w)"
  by (simp_all add: scripted_def)

lemma start_run_example:
  "start_run (scripted cwd faults exits) [(''id'', JStr ''org.foo.App'')]
     [(''workingDir'', JStr ''/w''), (''bundlePath'', JStr ''out/app.flatpak'')] w
   = \<lparr>run_options = [(''working-dir'', JStr ''/w''), (''bundle-path'', JStr ''out/app.flatpak'')],
      run_manifest = [(''id'', JStr ''org.foo.App'')],
      run_st = \<lparr>world = w, trace = []\<rparr>\<rparr>"
  by (simp add: start_run_def kebabify_obj the_obj_def obj_keys_def obj_get_def obj_set_def
        kebabCase_workingDir kebabCase_bundlePath kebabCase_id)

lemma options_example2:
  "getOptionsWithDefaults ''/home/u''
     [(''working-dir'', JStr ''/w''), (''bundle-path'', JStr ''out/app.flatpak'')]
   = Inr [(''working-dir'', JStr ''/w''), (''bundle-path'', JStr ''/home/u/out/app.flatpak''),
          (''build-dir'', JStr ''/w/build''), (''repo-dir'', JStr ''/w/repo''),
          (''manifest-path'', JStr ''/w/manifest.json''),
          (''extra-flatpak-builder-args'', JArr []),
          (''extra-flatpak-build-bundle-args'', JArr [])]"
  by (simp add: getOptionsWithDefaults_def path_join_def path_normalize_def isAbsolute_def
        endsWith_sep_def Let_def lodash_defaults_def defaults_from_def defaults_step_def
        obj_keys_def obj_get_def obj_set_def resolve_option_def path_resolve_def)

lemma builder_args_example:
  "flatpakBuilder_args
     [(''working-dir'', JStr ''/w''), (''bundle-path'', JStr ''/home/u/out/app.flatpak''),
      (''build-dir'', JStr ''/w/build''), (''repo-dir'', JStr ''/w/repo''),
      (''manifest-path'', JStr ''/w/manifest.json''),
      (''extra-flatpak-builder-args'', JArr []),
      (''extra-flatpak-build-bundle-args'', JArr [])] False
   = [JStr ''--repo=/w/repo'', JStr ''--force-clean'', JStr ''--build-only'',
      JStr ''/w/build'', JStr ''/w/manifest.json'']"
  by (simp add: flatpakBuilder_args_def addCommandLineOption_def falsy_def obj_get_def Let_def)

lemma stage1_scripted:
  assumes "obj_get opts ''working-dir'' = JStr dir" and "dir \<noteq> []"
    and "faults (Mkdirs dir) = None"
  shows "stage_ensureWorkingDir (scripted cwd faults exits)
           \<lparr>run_options = opts, run_manifest = m, run_st = \<lparr>world = w, trace = tr\<rparr>\<rparr>
         = (None, \<lparr>run_options = opts, run_manifest = m,
                   run_st = \<lparr>world = w, trace = tr @ [Mkdirs dir]\<rparr>\<rparr>)"
  using assms
  by (simp add: stage_ensureWorkingDir_def ensureWorkingDir_def falsy_def mkdirs_def log_call_def)

lemma stage1_example:
  "stage_ensureWorkingDir (scripted ''/home/u'' (\<lambda>ev. None) exits)
     \<lparr>run_options = [(''working-dir'', JStr ''/w''), (''bundle-path'', JStr ''out/app.flatpak'')],
      run_manifest = m, run_st = \<lparr>world = w, trace = []\<rparr>\<rparr>
   = (None, \<lparr>run_options = [(''working-dir'', JStr ''/w''), (''bundle-path'', JStr ''out/app.flatpak'')],
      run_manifest = m, run_st = \<lparr>world = w, trace = [Mkdirs ''/w'']\<rparr>\<rparr>)"
  using stage1_scripted [of "[(''working-dir'', JStr ''/w''), (''bundle-path'', JStr ''out/app.flatpak'')]"
      "''/w''" "\<lambda>ev. None" "''/home/u''" exits m w "[]"]
  by (simp add: obj_get_def)

lemma stage1_no_bundle:
  "stage_ensureWorkingDir (scripted ''/home/u'' (\<lambda>ev. None) exits)
     \<lparr>run_options = [(''working-dir'', JStr ''/w'')],
      run_manifest = m, run_st = \<lparr>world = w, trace = []\<rparr>\<rparr>
   = (None, \<lparr>run_options = [(''working-dir'', JStr ''/w'')],
      run_manifest = m, run_st = \<lparr>world = w, trace = [Mkdirs ''/w'']\<rparr>\<rparr>)"
  using stage1_scripted [of "[(''working-dir'', JStr ''/w'')]"
      "''/w''" "\<lambda>ev. None" "''/home/u''" exits m w "[]"]
  by (simp add: obj_get_def)

lemma stage2_example:
  "stage_defaults (scripted ''/home/u'' faults exits)
     \<lparr>run_options = [(''working-dir'', JStr ''/w''), (''bundle-path'', JStr ''out/app.flatpak'')],
      run_manifest = m, run_st = s\<rparr>
   = (None, \<lparr>run_options = [(''working-dir'', JStr ''/w''), (''bundle-path'', JStr ''/home/u/out/app.flatpak''),
          (''build-dir'', JStr ''/w/build''), (''repo-dir'', JStr ''/w/repo''),
          (''manifest-path'', JStr ''/w/manifest.json''),
          (''extra-flatpak-builder-args'', JArr []),
          (''extra-flatpak-build-bundle-args'', JArr [])],
      run_manifest = getManifestWithDefaults m, run_st = s\<rparr>)"
  by (simp add: stage_defaults_def options_example2)


section \<open>Facts about the calls\<close>



lemma spawnWithLogging_trace:
  "trace (snd (spawnWithLogging sys options command args s))
     = trace s @ [Spawn command args (obj_get options ''working-dir'')]"
  by (simp add: spawnWithLogging_def log_call_def Let_def split: prod.split spawn_result.split)

section \<open>Claims about the symlink phase\<close>











section \<open>Facts about the file system\<close>

lemma lstat_empty_dir: "lstat (Dir []) p = Some (File t) \<longleftrightarrow> False"
  by (cases p) simp_all

lemma mkdirp_files:
  "mkdirp q n = (r, n') \<Longrightarrow> (lstat n' p = Some (File t)) = (lstat n p = Some (File t))"
proof (induction q arbitrary: n n' p r)
  case Nil
  then show ?case by (auto split: node.splits)
next
  case (Cons name names)
  show ?case
  proof (cases n)
    case (Dir entries)
    let ?child = "case map_of entries name of None \<Rightarrow> Dir [] | Some child \<Rightarrow> child"
    obtain r' child' where m: "mkdirp names ?child = (r', child')"
      by (cases "mkdirp names ?child") auto
    show ?thesis
    proof (cases r')
      case (Some e)
      with Cons.prems Dir m show ?thesis by simp
    next
      case None
      with Cons.prems Dir m have n': "n' = Dir (AList.update name child' entries)"
        by simp
      note ih = Cons.IH [OF m]
      show ?thesis
      proof (cases p)
        case Nil
        then show ?thesis by (simp add: n' Dir)
      next
        case (Cons x ps)
        show ?thesis
        proof (cases "x = name")
          case True
          have "lstat n' p = lstat child' ps"
            by (simp add: n' Cons True update_conv')
          moreover have "(lstat n p = Some (File t)) = (lstat ?child ps = Some (File t))"
            by (simp add: Dir Cons True lstat_empty_dir split: option.splits)
          ultimately show ?thesis using ih [of ps] by simp
        next
          case False
          then show ?thesis by (simp add: n' Dir Cons update_conv')
        qed
      qed
    qed
  qed (use Cons.prems in auto)
qed

lemma mkdirp_dir: "mkdirp q n = (None, n') \<Longrightarrow> \<exists>es. lstat n' q = Some (Dir es)"
proof (induction q arbitrary: n n')
  case Nil
  then show ?case by (auto split: node.splits)
next
  case (Cons name names)
  show ?case
  proof (cases n)
    case (Dir entries)
    let ?child = "case map_of entries name of None \<Rightarrow> Dir [] | Some child \<Rightarrow> child"
    obtain r' child' where m: "mkdirp names ?child = (r', child')"
      by (cases "mkdirp names ?child") auto
    with Cons.prems Dir have r': "r' = None" and n': "n' = Dir (AList.update name child' entries)"
      by (auto split: option.splits)
    from Cons.IH [OF m [unfolded r']] show ?thesis
      by (simp add: n' update_conv')
  qed (use Cons.prems in auto)
qed

lemma mkdirp_keeps_dir:
  "mkdirp q n = (r, n') \<Longrightarrow> lstat n p = Some (Dir es) \<Longrightarrow> \<exists>es'. lstat n' p = Some (Dir es')"
proof (induction q arbitrary: n n' p r es)
  case Nil
  then show ?case by (auto split: node.splits)
next
  case (Cons name names)
  show ?case
  proof (cases n)
    case (Dir entries)
    let ?child = "case map_of entries name of None \<Rightarrow> Dir [] | Some child \<Rightarrow> child"
    obtain r' child' where m: "mkdirp names ?child = (r', child')"
      by (cases "mkdirp names ?child") auto
    show ?thesis
    proof (cases r')
      case (Some e)
      with Cons.prems Dir m show ?thesis by simp
    next
      case None
      with Cons.prems(1) Dir m have n': "n' = Dir (AList.update name child' entries)"
        by simp
      show ?thesis
      proof (cases p)
        case Nil
        then show ?thesis by (simp add: n')
      next
        case (Cons x ps)
        show ?thesis
        proof (cases "x = name")
          case True
          from Cons.prems(2) have "lstat ?child ps = Some (Dir es)"
            by (simp add: Dir Cons True split: option.splits)
          from Cons.IH [OF m this] show ?thesis
            by (simp add: n' Cons True update_conv')
        next
          case False
          with Cons.prems(2) show ?thesis by (simp add: n' Dir Cons update_conv')
        qed
      qed
    qed
  qed (use Cons.prems in auto)
qed

lemma alter_file_onto_dir:
  "lstat n q = Some (Dir ds) \<Longrightarrow>
     alter q (ncp_node (File content)) n = (Some (SystemError ''EISDIR''), n)"
proof (induction q arbitrary: n)
  case Nil
  then show ?case by simp
next
  case (Cons name names)
  from Cons.prems obtain entries child where n: "n = Dir entries"
    and c: "map_of entries name = Some child" and l: "lstat child names = Some (Dir ds)"
    by (auto split: node.splits option.splits)
  have same: "AList.update name child entries = entries"
    using c by (rule update_triv)
  show ?case
  proof (cases "names = []")
    case True
    with l have "child = Dir ds" by simp
    with same show ?thesis by (simp add: n c True)
  next
    case False
    with Cons.IH [OF l] same show ?thesis by (simp add: n c)
  qed
qed



lemma mkdirp_prefixes:
  "mkdirp q n = (None, n') \<Longrightarrow> \<exists>es. lstat n' (take k q) = Some (Dir es)"
proof (induction q arbitrary: n n' k)
  case Nil
  then show ?case by (auto split: node.splits)
next
  case (Cons name names)
  show ?case
  proof (cases n)
    case (Dir entries)
    let ?child = "case map_of entries name of None \<Rightarrow> Dir [] | Some child \<Rightarrow> child"
    obtain r' child' where m: "mkdirp names ?child = (r', child')"
      by (cases "mkdirp names ?child") auto
    with Cons.prems Dir have r': "r' = None" and n': "n' = Dir (AList.update name child' entries)"
      by (auto split: option.splits)
    show ?thesis
    proof (cases k)
      case 0
      then show ?thesis by (simp add: n')
    next
      case (Suc k')
      from Cons.IH [OF m [unfolded r'], of k'] show ?thesis
        by (simp add: n' Suc update_conv')
    qed
  qed (use Cons.prems in auto)
qed

lemma on_disk_simps [simp]:
  "sys_cwd (on_disk sys) = sys_cwd sys"
  "sys_mkdirs (on_disk sys) = fs_mkdirs (sys_cwd sys)"
  "sys_copy (on_disk sys) = fs_copy (sys_cwd sys)"
  by (simp_all add: on_disk_def)


section \<open>Claims about the bundler stage\<close>

text \<open>
  C9. With fs-extra's \<^verbatim>\<open>mkdirs\<close> on the disk and a bundle path configured, the bundler
  stage first calls \<^verbatim>\<open>mkdirs\<close> on the directory of the bundle path. When that call
  fails, the stage rejects with its error, in the world it left, and the bundler is not
  spawned. When it succeeds, the directory and every directory above it exist in the world
  it left, the bundler is spawned in that very world, after the \<^verbatim>\<open>mkdirs\<close> call, and
  the stage settles as the bundler's exit says, in the world the bundler left.
\<close>

theorem bundle_dir_made_before_spawn:
  assumes "obj_get options ''bundle-path'' = JStr bundle_path" and "bundle_path \<noteq> []"
  shows "\<exists>r w1.
           fs_mkdirs (sys_cwd sys) (path_dirname bundle_path) (world s) = (r, w1)
         \<and> (case r of
               Some e \<Rightarrow>
                 flatpakBuildBundle (on_disk sys) options manifest s
                   = (Some e, \<lparr>world = w1, trace = trace s @ [Mkdirs (path_dirname bundle_path)]\<rparr>)
             | None \<Rightarrow>
                 (\<forall>k \<le> length (fs_path (sys_cwd sys) (path_dirname bundle_path)).
                    \<exists>es. lstat w1 (take k (fs_path (sys_cwd sys) (path_dirname bundle_path)))
                           = Some (Dir es))
               \<and> (\<exists>sr w2.
                     sys_spawn sys ''flatpak'' (flatpakBuildBundle_args options manifest)
                       (obj_get options ''working-dir'') w1 = (sr, w2)
                   \<and> flatpakBuildBundle (on_disk sys) options manifest s
                       = ((case sr of
                             SpawnError e \<Rightarrow> Some e
                           | Closed code \<Rightarrow>
                               (if code \<noteq> Some 0
                                then Some (Error (''flatpak failed with status code '' @ code_string code))
                                else None)),
                          \<lparr>world = w2,
                           trace = trace s @
                             [Mkdirs (path_dirname bundle_path),
                              Spawn ''flatpak'' (flatpakBuildBundle_args options manifest)
                                (obj_get options ''working-dir'')]\<rparr>)))"
proof -
  let ?dir = "path_dirname bundle_path"
  let ?args = "flatpakBuildBundle_args options manifest"
  obtain r w1 where m: "fs_mkdirs (sys_cwd sys) ?dir (world s) = (r, w1)"
    by (cases "fs_mkdirs (sys_cwd sys) ?dir (world s)") auto
  have f: "flatpakBuildBundle (on_disk sys) options manifest s
           = and_then (mkdirs (on_disk sys) ?dir)
               (spawnWithLogging (on_disk sys) options ''flatpak'' ?args) s"
    using assms by (simp add: flatpakBuildBundle_def falsy_def)
  show ?thesis
  proof (cases r)
    case (Some e)
    with m show ?thesis
      by (simp add: f and_then_def mkdirs_def log_call_def)
  next
    case None
    from m None have mp: "mkdirp (fs_path (sys_cwd sys) ?dir) (world s) = (None, w1)"
      by (simp add: fs_mkdirs_def)
    have dirs: "\<forall>k \<le> length (fs_path (sys_cwd sys) ?dir).
                  \<exists>es. lstat w1 (take k (fs_path (sys_cwd sys) ?dir)) = Some (Dir es)"
      using mkdirp_prefixes [OF mp] by blast
    obtain sr w2 where sp: "sys_spawn sys ''flatpak'' ?args (obj_get options ''working-dir'') w1 = (sr, w2)"
      by (cases "sys_spawn sys ''flatpak'' ?args (obj_get options ''working-dir'') w1") auto
    have sp': "sys_spawn (on_disk sys) = sys_spawn sys"
      by (simp add: on_disk_def)
    have "flatpakBuildBundle (on_disk sys) options manifest s
            = ((case sr of
                  SpawnError e \<Rightarrow> Some e
                | Closed code \<Rightarrow>
                    (if code \<noteq> Some 0
                     then Some (Error (''flatpak failed with status code '' @ code_string code))
                     else None)),
               \<lparr>world = w2,
                trace = trace s @ [Mkdirs ?dir, Spawn ''flatpak'' ?args (obj_get options ''working-dir'')]\<rparr>)"
      by (cases sr)
         (simp_all add: f and_then_def mkdirs_def log_call_def m None spawnWithLogging_def sp' sp)
    with m None dirs sp show ?thesis
      by simp
  qed
qed


lemma bundle_args_example:
  "flatpakBuildBundle_args
     [(''working-dir'', JStr ''/w''), (''bundle-path'', JStr ''/home/u/out/app.flatpak''),
      (''build-dir'', JStr ''/w/build''), (''repo-dir'', JStr ''/w/repo''),
      (''manifest-path'', JStr ''/w/manifest.json''),
      (''extra-flatpak-builder-args'', JArr []),
      (''extra-flatpak-build-bundle-args'', JArr [])]
     [(''id'', JStr ''org.foo.App''), (''branch'', JStr ''master'')]
   = [JStr ''build-bundle'', JStr ''/w/repo'', JStr ''/home/u/out/app.flatpak'',
      JStr ''org.foo.App'', JStr ''master'']"
  by (simp add: flatpakBuildBundle_args_def addCommandLineOption_def falsy_def obj_get_def Let_def)

lemma dirname_example: "path_dirname ''/home/u/out/app.flatpak'' = ''/home/u/out''"
  by (simp add: path_dirname_def isAbsolute_def)

lemma fs_mkdirs_out:
  "fs_mkdirs ''/home/u'' ''/home/u/out'' (Dir [(''home'', Dir [(''u'', Dir [])])])
   = (None, Dir [(''home'', Dir [(''u'', Dir [(''out'', Dir [])])])])"
  by (simp add: fs_mkdirs_def fs_path_def isAbsolute_def)

theorem bundle_dir_made_before_spawn_witness:
  "flatpakBuildBundle
     (on_disk (scripted ''/home/u'' (\<lambda>ev. None) (\<lambda>command args. Closed (Some 0))))
     [(''working-dir'', JStr ''/w''), (''bundle-path'', JStr ''/home/u/out/app.flatpak''),
      (''build-dir'', JStr ''/w/build''), (''repo-dir'', JStr ''/w/repo''),
      (''manifest-path'', JStr ''/w/manifest.json''),
      (''extra-flatpak-builder-args'', JArr []),
      (''extra-flatpak-build-bundle-args'', JArr [])]
     [(''id'', JStr ''org.foo.App''), (''branch'', JStr ''master'')]
     \<lparr>world = Dir [(''home'', Dir [(''u'', Dir [])])], trace = []\<rparr>
   = (None,
      \<lparr>world = Dir [(''home'', Dir [(''u'', Dir [(''out'', Dir [])])])],
       trace =
         [Mkdirs ''/home/u/out'',
          Spawn ''flatpak''
            [JStr ''build-bundle'', JStr ''/w/repo'', JStr ''/home/u/out/app.flatpak'',
             JStr ''org.foo.App'', JStr ''master'']
            (JStr ''/w'')]\<rparr>)"
proof -
  let ?sys = "scripted ''/home/u'' (\<lambda>ev. None) (\<lambda>command args. Closed (Some 0)) :: node sys"
  let ?options = "[(''working-dir'', JStr ''/w''), (''bundle-path'', JStr ''/home/u/out/app.flatpak''),
        (''build-dir'', JStr ''/w/build''), (''repo-dir'', JStr ''/w/repo''),
        (''manifest-path'', JStr ''/w/manifest.json''),
        (''extra-flatpak-builder-args'', JArr []),
        (''extra-flatpak-build-bundle-args'', JArr [])]"
  have a: "obj_get ?options ''bundle-path'' = JStr ''/home/u/out/app.flatpak''"
    by (simp add: obj_get_def)
  have b: "''/home/u/out/app.flatpak'' \<noteq> []"
    by simp
  have c: "obj_get ?options ''working-dir'' = JStr ''/w''"
    by (simp add: obj_get_def)
  show ?thesis
    using bundle_dir_made_before_spawn [OF a b, of ?sys
           "\<lparr>world = Dir [(''home'', Dir [(''u'', Dir [])])], trace = []\<rparr>"
           "[(''id'', JStr ''org.foo.App''), (''branch'', JStr ''master'')]"]
    by (auto simp: dirname_example fs_mkdirs_out bundle_args_example c simp del: lstat.simps)
qed

section \<open>Claims about the pipeline\<close>

lemma chain_stops:
  "chain pre r = (None, r1) \<Longrightarrow> stage r1 = (Some e, r2) \<Longrightarrow>
     chain (pre @ stage # post) r = (Some e, r2)"
proof (induction pre arbitrary: r)
  case Nil
  then show ?case by simp
next
  case (Cons a pre)
  obtain x r' where a: "a r = (x, r')" by (cases "a r") auto
  with Cons.prems(1) have x: "x = None" and c: "chain pre r' = (None, r1)"
    by (auto split: option.splits)
  from Cons.IH [OF c Cons.prems(2)] show ?case
    by (simp add: a x)
qed

lemma fourth_stage:
  assumes "bundle_stages sys = pre @ stage # post" and "length pre = 3"
  shows "stage = in_run (\<lambda>options manifest. flatpakBuilder sys options False)"
proof -
  from assms(1) have "bundle_stages sys ! 3 = (pre @ stage # post) ! 3" by simp
  also have "\<dots> = stage" using assms(2) by (simp add: nth_append)
  finally show ?thesis by (simp add: bundle_stages_def)
qed

text \<open>
  C7. When the stages before some stage of the pipeline resolve and that stage rejects
  with an error, the callback receives that error and the run ends in the state in which
  the failing stage left it: no later stage has run. When the failing stage is the fourth,
  the first invocation of the builder, and the builder has closed with an exit code, the
  error is the one that names the command and that code, and the last call of the trace
  is that invocation.
\<close>

theorem stage_failure_is_terminal:
  assumes split: "bundle_stages sys = pre @ stage # post"
    and before: "chain pre (start_run sys manifest options w) = (None, r1)"
    and fails: "stage r1 = (Some e, r2)"
  shows "exports_bundle sys manifest options w = (Inl e, run_st r2)
       \<and> (\<forall>code w'.
             length pre = 3 \<and>
             sys_spawn sys ''flatpak-builder'' (flatpakBuilder_args (run_options r1) False)
               (obj_get (run_options r1) ''working-dir'') (world (run_st r1)) = (Closed code, w')
             \<longrightarrow> e = Error (''flatpak-builder failed with status code '' @ code_string code)
                 \<and> run_st r2 =
                     \<lparr>world = w',
                      trace = trace (run_st r1) @
                        [Spawn ''flatpak-builder'' (flatpakBuilder_args (run_options r1) False)
                           (obj_get (run_options r1) ''working-dir'')]\<rparr>)"
proof (rule conjI)
  show "exports_bundle sys manifest options w = (Inl e, run_st r2)"
    using chain_stops [of pre _ r1 stage e r2 post, OF before fails]
    by (simp add: exports_bundle_def split)
next
  show "\<forall>code w'.
             length pre = 3 \<and>
             sys_spawn sys ''flatpak-builder'' (flatpakBuilder_args (run_options r1) False)
               (obj_get (run_options r1) ''working-dir'') (world (run_st r1)) = (Closed code, w')
             \<longrightarrow> e = Error (''flatpak-builder failed with status code '' @ code_string code)
                 \<and> run_st r2 =
                     \<lparr>world = w',
                      trace = trace (run_st r1) @
                        [Spawn ''flatpak-builder'' (flatpakBuilder_args (run_options r1) False)
                           (obj_get (run_options r1) ''working-dir'')]\<rparr>"
  proof (intro allI impI)
    fix code w'
    assume h: "length pre = 3 \<and>
             sys_spawn sys ''flatpak-builder'' (flatpakBuilder_args (run_options r1) False)
               (obj_get (run_options r1) ''working-dir'') (world (run_st r1)) = (Closed code, w')"
    then have st: "stage = in_run (\<lambda>options manifest. flatpakBuilder sys options False)"
      using fourth_stage [OF split] by simp
    from fails h show "e = Error (''flatpak-builder failed with status code '' @ code_string code)
                 \<and> run_st r2 =
                     \<lparr>world = w',
                      trace = trace (run_st r1) @
                        [Spawn ''flatpak-builder'' (flatpakBuilder_args (run_options r1) False)
                           (obj_get (run_options r1) ''working-dir'')]\<rparr>"
      unfolding st
      by (auto simp: in_run_def flatpakBuilder_def spawnWithLogging_def log_call_def Let_def
            split: if_splits)
  qed
qed


lemma decimal_2: "decimal 2 = ''2''"
  by (simp add: decimal.simps digit_char_def)

lemma stage3_example:
  "in_run (writeJsonFile (scripted ''/home/u'' (\<lambda>ev. None) exits))
     \<lparr>run_options = [(''working-dir'', JStr ''/w''), (''bundle-path'', JStr ''/home/u/out/app.flatpak''),
          (''build-dir'', JStr ''/w/build''), (''repo-dir'', JStr ''/w/repo''),
          (''manifest-path'', JStr ''/w/manifest.json''),
          (''extra-flatpak-builder-args'', JArr []),
          (''extra-flatpak-build-bundle-args'', JArr [])],
      run_manifest = m, run_st = \<lparr>world = w, trace = tr\<rparr>\<rparr>
   = (None, \<lparr>run_options = [(''working-dir'', JStr ''/w''), (''bundle-path'', JStr ''/home/u/out/app.flatpak''),
          (''build-dir'', JStr ''/w/build''), (''repo-dir'', JStr ''/w/repo''),
          (''manifest-path'', JStr ''/w/manifest.json''),
          (''extra-flatpak-builder-args'', JArr []),
          (''extra-flatpak-build-bundle-args'', JArr [])],
      run_manifest = m,
      run_st = \<lparr>world = w, trace = tr @ [WriteFile ''/w/manifest.json'' (json_stringify (JObj m))]\<rparr>\<rparr>)"
  by (simp add: in_run_def writeJsonFile_def obj_get_def writeFile_def log_call_def)

lemma stage4_example:
  "in_run (\<lambda>options manifest. flatpakBuilder (scripted ''/home/u'' faults (\<lambda>command args. Closed (Some 2))) options False)
     \<lparr>run_options = [(''working-dir'', JStr ''/w''), (''bundle-path'', JStr ''/home/u/out/app.flatpak''),
          (''build-dir'', JStr ''/w/build''), (''repo-dir'', JStr ''/w/repo''),
          (''manifest-path'', JStr ''/w/manifest.json''),
          (''extra-flatpak-builder-args'', JArr []),
          (''extra-flatpak-build-bundle-args'', JArr [])],
      run_manifest = m, run_st = \<lparr>world = w, trace = tr\<rparr>\<rparr>
   = (Some (Error ''flatpak-builder failed with status code 2''),
      \<lparr>run_options = [(''working-dir'', JStr ''/w''), (''bundle-path'', JStr ''/home/u/out/app.flatpak''),
          (''build-dir'', JStr ''/w/build''), (''repo-dir'', JStr ''/w/repo''),
          (''manifest-path'', JStr ''/w/manifest.json''),
          (''extra-flatpak-builder-args'', JArr []),
          (''extra-flatpak-build-bundle-args'', JArr [])],
      run_manifest = m,
      run_st = \<lparr>world = w, trace = tr @
         [Spawn ''flatpak-builder''
            [JStr ''--repo=/w/repo'', JStr ''--force-clean'', JStr ''--build-only'',
             JStr ''/w/build'', JStr ''/w/manifest.json'']
            (JStr ''/w'')]\<rparr>\<rparr>)"
  by (simp add: in_run_def flatpakBuilder_def builder_args_example spawnWithLogging_def
        log_call_def code_string_def decimal_int_def decimal_2)
     (simp add: obj_get_def)

theorem stage_failure_is_terminal_witness:
  "exports_bundle (scripted ''/home/u'' (\<lambda>ev. None) (\<lambda>command args. Closed (Some 2)))
     [(''id'', JStr ''org.foo.App'')]
     [(''workingDir'', JStr ''/w''), (''bundlePath'', JStr ''out/app.flatpak'')] ()
   = (Inl (Error ''flatpak-builder failed with status code 2''),
      \<lparr>world = (),
       trace =
         [Mkdirs ''/w'',
          WriteFile ''/w/manifest.json''
            (json_stringify (JObj (getManifestWithDefaults [(''id'', JStr ''org.foo.App'')]))),
          Spawn ''flatpak-builder''
            [JStr ''--repo=/w/repo'', JStr ''--force-clean'', JStr ''--build-only'',
             JStr ''/w/build'', JStr ''/w/manifest.json'']
            (JStr ''/w'')]\<rparr>)"
proof -
  let ?sys = "scripted ''/home/u'' (\<lambda>ev. None) (\<lambda>command args. Closed (Some 2)) :: unit sys"
  let ?resolved = "[(''working-dir'', JStr ''/w''), (''bundle-path'', JStr ''/home/u/out/app.flatpak''),
          (''build-dir'', JStr ''/w/build''), (''repo-dir'', JStr ''/w/repo''),
          (''manifest-path'', JStr ''/w/manifest.json''),
          (''extra-flatpak-builder-args'', JArr []),
          (''extra-flatpak-build-bundle-args'', JArr [])]"
  let ?m = "getManifestWithDefaults [(''id'', JStr ''org.foo.App'')]"
  let ?r1 = "\<lparr>run_options = ?resolved, run_manifest = ?m,
              run_st = \<lparr>world = (), trace = [Mkdirs ''/w'', WriteFile ''/w/manifest.json'' (json_stringify (JObj ?m))]\<rparr>\<rparr>"
  have a: "bundle_stages ?sys =
      [stage_ensureWorkingDir ?sys, stage_defaults ?sys, in_run (writeJsonFile ?sys)]
      @ in_run (\<lambda>options manifest. flatpakBuilder ?sys options False)
      # [in_run (copyFiles ?sys), in_run (createSymlinks ?sys),
         in_run (\<lambda>options manifest. flatpakBuilder ?sys options True),
         in_run (flatpakBuildBundle ?sys)]"
    by (simp add: bundle_stages_def)
  have b: "chain [stage_ensureWorkingDir ?sys, stage_defaults ?sys, in_run (writeJsonFile ?sys)]
             (start_run ?sys [(''id'', JStr ''org.foo.App'')]
                [(''workingDir'', JStr ''/w''), (''bundlePath'', JStr ''out/app.flatpak'')] ())
           = (None, ?r1)"
    by (simp add: start_run_example stage1_example stage2_example stage3_example)
  have c: "in_run (\<lambda>options manifest. flatpakBuilder ?sys options False) ?r1
           = (Some (Error ''flatpak-builder failed with status code 2''),
              ?r1\<lparr>run_st := \<lparr>world = (), trace =
                 [Mkdirs ''/w'', WriteFile ''/w/manifest.json'' (json_stringify (JObj ?m)),
                  Spawn ''flatpak-builder''
                    [JStr ''--repo=/w/repo'', JStr ''--force-clean'', JStr ''--build-only'',
                     JStr ''/w/build'', JStr ''/w/manifest.json'']
                    (JStr ''/w'')]\<rparr>\<rparr>)"
    by (simp add: stage4_example)
  show ?thesis
    using stage_failure_is_terminal [OF a b c, THEN conjunct1] by simp
qed

lemma start_run_no_bundle:
  "start_run (scripted cwd faults exits) [(''id'', JStr ''org.foo.App'')]
     [(''workingDir'', JStr ''/w'')] w
   = \<lparr>run_options = [(''working-dir'', JStr ''/w'')],
      run_manifest = [(''id'', JStr ''org.foo.App'')],
      run_st = \<lparr>world = w, trace = []\<rparr>\<rparr>"
  by (simp add: start_run_def kebabify_obj the_obj_def obj_keys_def obj_get_def obj_set_def
        kebabCase_workingDir kebabCase_id)

lemma options_no_bundle:
  "getOptionsWithDefaults ''/home/u'' [(''working-dir'', JStr ''/w'')]
     = Inl (TypeError ''Path must be a string'')"
  by (simp add: getOptionsWithDefaults_def path_join_def path_normalize_def isAbsolute_def
        endsWith_sep_def Let_def lodash_defaults_def defaults_from_def defaults_step_def
        obj_keys_def obj_get_def obj_set_def resolve_option_def path_resolve_def)

lemma resolve_option_Inr:
  "resolve_option cwd name options = Inr options' \<Longrightarrow>
     \<exists>p. options' = obj_set name (JStr p) options"
  by (cases "path_resolve cwd (obj_get options name)") (auto simp: resolve_option_def)

lemma resolve_option_undefined:
  "obj_get options name = JUndefined \<Longrightarrow>
     resolve_option cwd name options = Inl (TypeError ''Path must be a string'')"
  by (simp add: resolve_option_def path_resolve_def)

lemma bindE_cases:
  "(\<exists>e. bindE r f = Inl e) = ((\<exists>e. r = Inl e) \<or> (\<exists>v. r = Inr v \<and> (\<exists>e. f v = Inl e)))"
  by (cases r) simp_all

lemma getOptionsWithDefaults_no_bundle_path:
  assumes "obj_get options ''bundle-path'' = JUndefined"
  shows "\<exists>e. getOptionsWithDefaults cwd options = Inl e"
proof -
  have d: "obj_get (lodash_defaults [] [options,
                   [(''build-dir'', JStr b), (''repo-dir'', JStr r), (''manifest-path'', JStr m),
                    (''extra-flatpak-builder-args'', JArr []),
                    (''extra-flatpak-build-bundle-args'', JArr [])]]) ''bundle-path'' = JUndefined"
    for b r m
    using assms by (simp add: obj_get_defaults2) (simp add: obj_get_def)
  have last: "\<exists>e. (bindE (resolve_option cwd ''working-dir'' o1) (\<lambda>options2.
           bindE (resolve_option cwd ''build-dir'' options2) (\<lambda>options3.
           bindE (resolve_option cwd ''repo-dir'' options3) (\<lambda>options4.
           bindE (resolve_option cwd ''manifest-path'' options4) (\<lambda>options5.
           resolve_option cwd ''bundle-path'' options5))))) = Inl e"
    if o1: "obj_get o1 ''bundle-path'' = JUndefined" for o1
  proof (cases "resolve_option cwd ''working-dir'' o1")
    case (Inr o2)
    with resolve_option_Inr [OF Inr] o1 have b2: "obj_get o2 ''bundle-path'' = JUndefined"
      by (auto simp: obj_get_set)
    show ?thesis
    proof (cases "resolve_option cwd ''build-dir'' o2")
      case o3: (Inr o3)
      with resolve_option_Inr [OF o3] b2 have b3: "obj_get o3 ''bundle-path'' = JUndefined"
        by (auto simp: obj_get_set)
      show ?thesis
      proof (cases "resolve_option cwd ''repo-dir'' o3")
        case o4: (Inr o4)
        with resolve_option_Inr [OF o4] b3 have b4: "obj_get o4 ''bundle-path'' = JUndefined"
          by (auto simp: obj_get_set)
        show ?thesis
        proof (cases "resolve_option cwd ''manifest-path'' o4")
          case o5: (Inr o5)
          with resolve_option_Inr [OF o5] b4 have b5: "obj_get o5 ''bundle-path'' = JUndefined"
            by (auto simp: obj_get_set)
          show ?thesis
            by (simp add: Inr o3 o4 o5 resolve_option_undefined [OF b5])
        qed (simp add: Inr o3 o4)
      qed (simp add: Inr o3)
    qed (simp add: Inr)
  qed simp
  show ?thesis
  proof (cases "path_join [obj_get options ''working-dir'', JStr ''build'']")
    case b: (Inr build)
    show ?thesis
    proof (cases "path_join [obj_get options ''working-dir'', JStr ''repo'']")
      case r: (Inr repo)
      show ?thesis
      proof (cases "path_join [obj_get options ''working-dir'', JStr ''manifest.json'']")
        case m: (Inr mani)
        show ?thesis
          using last [OF d [of build repo mani]]
          by (simp add: getOptionsWithDefaults_def b r m Let_def)
      qed (simp add: getOptionsWithDefaults_def b r)
    qed (simp add: getOptionsWithDefaults_def b)
  qed (simp add: getOptionsWithDefaults_def)
qed


lemma spawned_append: "spawned (tr @ tr') = spawned tr @ spawned tr'"
  by (simp add: spawned_def)

lemma ensureWorkingDir_keeps:
  assumes "ensureWorkingDir sys options s = (x, options', s')"
  shows "obj_get options' ''bundle-path'' = obj_get options ''bundle-path''
       \<and> spawned (trace s') = spawned (trace s)"
proof (cases "falsy (obj_get options ''working-dir'')")
  case True
  obtain r w where t: "sys_tmpdir sys (world s) = (r, w)"
    by (cases "sys_tmpdir sys (world s)") auto
  show ?thesis
  proof (cases r)
    case (Inl e)
    with assms True t show ?thesis
      by (auto simp: ensureWorkingDir_def tmpdir_def log_call_def spawned_append)
         (simp add: spawned_def)
  next
    case (Inr dir)
    with assms True t show ?thesis
      by (auto simp: ensureWorkingDir_def tmpdir_def log_call_def spawned_append obj_get_set)
         (simp add: spawned_def)
  qed
next
  case False
  show ?thesis
  proof (cases "\<exists>dir. obj_get options ''working-dir'' = JStr dir")
    case True
    then obtain dir where dir: "obj_get options ''working-dir'' = JStr dir" by blast
    obtain r w where m: "sys_mkdirs sys dir (world s) = (r, w)"
      by (cases "sys_mkdirs sys dir (world s)") auto
    from assms False dir m show ?thesis
      by (auto simp: ensureWorkingDir_def mkdirs_def log_call_def spawned_append)
         (simp add: spawned_def)
  next
    case nostr: False
    with assms False show ?thesis
      by (cases "obj_get options ''working-dir''") (auto simp: ensureWorkingDir_def)
  qed
qed

text \<open>
  Whatever the outside world answers, a run whose options have no bundle path ends with
  an error, and spawns no process at all: the option resolver throws, if the workspace
  preparer has not failed before.
\<close>

lemma no_bundle_path_never_succeeds:
  assumes "obj_get (run_options (start_run sys manifest options w)) ''bundle-path'' = JUndefined"
  shows "\<exists>e. fst (exports_bundle sys manifest options w) = Inl e
       \<and> spawned (trace (snd (exports_bundle sys manifest options w))) = []"
proof -
  let ?r0 = "start_run sys manifest options w"
  obtain x options' s' where e1: "ensureWorkingDir sys (run_options ?r0) (run_st ?r0) = (x, options', s')"
    by (cases "ensureWorkingDir sys (run_options ?r0) (run_st ?r0)") auto
  define r1 where "r1 = ?r0\<lparr>run_options := options', run_st := s'\<rparr>"
  have s1: "stage_ensureWorkingDir sys ?r0 = (x, r1)"
    by (simp add: stage_ensureWorkingDir_def e1 r1_def)
  from ensureWorkingDir_keeps [OF e1] assms
  have bp: "obj_get (run_options r1) ''bundle-path'' = JUndefined"
    and sp: "spawned (trace (run_st r1)) = []"
    by (simp_all add: r1_def) (simp add: start_run_def spawned_def)
  show ?thesis
  proof (cases x)
    case (Some e)
    with s1 sp show ?thesis
      by (simp add: exports_bundle_def bundle_stages_def)
  next
    case None
    from getOptionsWithDefaults_no_bundle_path [OF bp, of "sys_cwd sys"]
    obtain e where "getOptionsWithDefaults (sys_cwd sys) (run_options r1) = Inl e" by blast
    then have "stage_defaults sys r1 = (Some e, r1)"
      by (simp add: stage_defaults_def)
    with s1 None sp show ?thesis
      by (simp add: exports_bundle_def bundle_stages_def)
  qed
qed

text \<open>An empty bundle path resolves to the working directory of the process, a path that
  is not empty: the guard of the bundler stage does not hold it back.\<close>

lemma empty_bundle_path_resolved:
  "getOptionsWithDefaults ''/home/u'' [(''working-dir'', JStr ''/w''), (''bundle-path'', JStr [])]
   = Inr [(''working-dir'', JStr ''/w''), (''bundle-path'', JStr ''/home/u''),
          (''build-dir'', JStr ''/w/build''), (''repo-dir'', JStr ''/w/repo''),
          (''manifest-path'', JStr ''/w/manifest.json''),
          (''extra-flatpak-builder-args'', JArr []),
          (''extra-flatpak-build-bundle-args'', JArr [])]"
  by (simp add: getOptionsWithDefaults_def path_join_def path_normalize_def isAbsolute_def
        endsWith_sep_def Let_def lodash_defaults_def defaults_from_def defaults_step_def
        obj_keys_def obj_get_def obj_set_def resolve_option_def path_resolve_def)

text \<open>
  C1. The claim says that a run whose options have no bundle path completes successfully
  and never invokes the bundler. With options \<^verbatim>\<open>{workingDir: '/w'}\<close> and every call of
  the outside world succeeding, the option resolver hands \<^verbatim>\<open>undefined\<close> to
  \<^verbatim>\<open>path.resolve\<close>, which throws: the callback receives a \<^verbatim>\<open>TypeError\<close>, and neither
  the builder nor the bundler is invoked.
\<close>

theorem no_bundle_path_run_fails:
  "exports_bundle (scripted ''/home/u'' (\<lambda>ev. None) (\<lambda>command args. Closed (Some 0)))
     [(''id'', JStr ''org.foo.App'')] [(''workingDir'', JStr ''/w'')] ()
   = (Inl (TypeError ''Path must be a string''), \<lparr>world = (), trace = [Mkdirs ''/w'']\<rparr>)"
  by (simp add: exports_bundle_def bundle_stages_def start_run_no_bundle stage1_no_bundle
        stage_defaults_def options_no_bundle)

section \<open>Claims about the copy phase\<close>

lemma first_rejection_single [simp]: "first_rejection [r] = r"
  by (cases r) simp_all

lemma endsWith_sep_append: "endsWith_sep ys \<Longrightarrow> endsWith_sep (xs @ ys)"
  by (cases ys rule: rev_cases) (simp_all add: endsWith_sep_def)

lemma endsWith_sep_Cons: "endsWith_sep ys \<Longrightarrow> endsWith_sep (x # ys)"
  using endsWith_sep_append [of ys "[x]"] by simp

lemma endsWith_sep_slash: "endsWith_sep (xs @ ''/'')"
  by (simp add: endsWith_sep_def)

lemma endsWith_sep_normalize: "endsWith_sep path \<Longrightarrow> endsWith_sep (path_normalize path)"
  by (auto simp: path_normalize_def Let_def endsWith_sep_slash endsWith_sep_append
        simp flip: append_assoc)
     (simp add: endsWith_sep_def)

lemma path_join_trailing:
  assumes "endsWith_sep dst"
  shows "\<exists>dest. path_join [JStr build, JStr ''files'', JStr dst] = Inr dest \<and> endsWith_sep dest"
proof -
  from assms have d: "dst \<noteq> []" by (auto simp: endsWith_sep_def)
  have "endsWith_sep (if build = [] then ''files'' @ ''/'' @ dst else (build @ ''/'' @ ''files'') @ ''/'' @ dst)"
    using assms by (simp add: endsWith_sep_append endsWith_sep_Cons)
  then show ?thesis
    using d by (auto simp: path_join_def intro: endsWith_sep_normalize)
qed

lemma fs_copy_file_onto_dir:
  assumes isfile: "lstat root (fs_path cwd source) = Some (File content)"
    and dir: "lstat root (fs_path cwd dest) = Some (Dir ds)"
  shows "\<exists>e root'. fs_copy cwd source dest root = (Some e, root')
           \<and> (\<forall>p t. (lstat root' p = Some (File t)) = (lstat root p = Some (File t)))
           \<and> (\<exists>ds'. lstat root' (fs_path cwd dest) = Some (Dir ds'))"
proof (cases "fs_path cwd source = fs_path cwd dest")
  case True
  with dir show ?thesis by (simp add: fs_copy_def)
next
  case False
  let ?parent = "path_dirname dest"
  show ?thesis
  proof (cases "lstat root (fs_path cwd ?parent) \<noteq> None")
    case True
    with False isfile dir alter_file_onto_dir [OF dir, of content] show ?thesis
      by (simp add: fs_copy_def copy_parent_def)
  next
    case absent: False
    obtain r root' where m: "mkdirp (fs_path cwd ?parent) root = (r, root')"
      by (cases "mkdirp (fs_path cwd ?parent) root") auto
    have files: "(lstat root' p = Some (File t)) = (lstat root p = Some (File t))" for p t
      using mkdirp_files [OF m] .
    obtain ds' where dir': "lstat root' (fs_path cwd dest) = Some (Dir ds')"
      using mkdirp_keeps_dir [OF m dir] by blast
    show ?thesis
    proof (cases r)
      case (Some e)
      with False isfile absent m files dir' show ?thesis
        by (simp add: fs_copy_def copy_parent_def fs_mkdirs_def)
    next
      case None
      with False isfile absent m files dir' alter_file_onto_dir [OF dir', of content] show ?thesis
        by (simp add: fs_copy_def copy_parent_def fs_mkdirs_def)
    qed
  qed
qed

lemma copy_job_example:
  "copy_job (on_disk (scripted ''/home/u'' faults exits)) [(''build-dir'', JStr ''/w/build'')]
     (JArr [JStr ''a.txt'', JStr ''sub/''])
   = Inr (''/home/u/a.txt'', ''/w/build/files/sub/'', ''/w/build/files/sub/'')"
  by (simp add: copy_job_def js_index_def scripted_def on_disk_def path_resolve_def
        path_join_def path_normalize_def isAbsolute_def endsWith_sep_def Let_def obj_get_def)

lemma fs_path_examples:
  "fs_path ''/home/u'' ''/home/u/a.txt'' = [''home'', ''u'', ''a.txt'']"
  "fs_path ''/home/u'' ''/w/build/files/sub/'' = [''w'', ''build'', ''files'', ''sub'']"
  "fs_path ''/home/u'' ''/w/build/files/sub'' = [''w'', ''build'', ''files'', ''sub'']"
  "fs_path ''/home/u'' ''/w/build/files/sub/b.txt'' = [''w'', ''build'', ''files'', ''sub'', ''b.txt'']"
  "fs_path ''/home/u'' ''/w/build/files'' = [''w'', ''build'', ''files'']"
  by (simp_all add: fs_path_def isAbsolute_def)

lemma fs_mkdirs_example:
  "fs_mkdirs ''/home/u'' ''/w/build/files/sub/''
     (Dir [(''home'', Dir [(''u'', Dir [(''a.txt'', File ''hello'')])])])
   = (None,
      Dir [(''home'', Dir [(''u'', Dir [(''a.txt'', File ''hello'')])]),
           (''w'', Dir [(''build'', Dir [(''files'', Dir [(''sub'', Dir [])])])])])"
  by (simp add: fs_mkdirs_def fs_path_examples)

lemma fs_copy_example:
  "fs_copy ''/home/u'' ''/home/u/a.txt'' ''/w/build/files/sub/''
     (Dir [(''home'', Dir [(''u'', Dir [(''a.txt'', File ''hello'')])]),
           (''w'', Dir [(''build'', Dir [(''files'', Dir [(''sub'', Dir [])])])])])
   = (Some (SystemError ''EISDIR''),
      Dir [(''home'', Dir [(''u'', Dir [(''a.txt'', File ''hello'')])]),
           (''w'', Dir [(''build'', Dir [(''files'', Dir [(''sub'', Dir [])])])])])"
  by (simp add: fs_copy_def fs_path_examples copy_parent_def path_dirname_def isAbsolute_def)

text \<open>
  C5. The claim says that for a pair whose destination ends with the separator the source
  is copied into the directory made. At its own example, \<^verbatim>\<open>files = [["a.txt", "sub/"]]\<close>
  with \<^verbatim>\<open>a.txt\<close> a regular file in the working directory of the process, the source
  makes \<^verbatim>\<open>/w/build/files/sub/\<close> and then hands that directory to \<^verbatim>\<open>copy\<close> as the
  destination of the file: the phase rejects with \<^verbatim>\<open>EISDIR\<close>, the directory is empty
  and nothing stands at \<^verbatim>\<open>/w/build/files/sub/a.txt\<close>.
\<close>

theorem copy_file_into_directory_fails:
  "copyFiles (on_disk (scripted ''/home/u'' (\<lambda>ev. None) (\<lambda>command args. Closed (Some 0))))
     [(''build-dir'', JStr ''/w/build'')]
     [(''files'', JArr [JArr [JStr ''a.txt'', JStr ''sub/'']])]
     \<lparr>world = Dir [(''home'', Dir [(''u'', Dir [(''a.txt'', File ''hello'')])])],
      trace = []\<rparr>
   = (Some (SystemError ''EISDIR''),
      \<lparr>world = Dir [(''home'', Dir [(''u'', Dir [(''a.txt'', File ''hello'')])]),
                    (''w'', Dir [(''build'', Dir [(''files'', Dir [(''sub'', Dir [])])])])],
       trace = [Mkdirs ''/w/build/files/sub/'',
                Copy ''/home/u/a.txt'' ''/w/build/files/sub/'']\<rparr>)
   \<and> lstat (Dir [(''home'', Dir [(''u'', Dir [(''a.txt'', File ''hello'')])]),
                 (''w'', Dir [(''build'', Dir [(''files'', Dir [(''sub'', Dir [])])])])])
       [''w'', ''build'', ''files'', ''sub'', ''a.txt'']
     = None"
proof -
  have files: "obj_get [(''files'', JArr [JArr [JStr ''a.txt'', JStr ''sub/'']])] ''files''
             = JArr [JArr [JStr ''a.txt'', JStr ''sub/'']]"
    by (simp add: obj_get_def)
  have "copyFiles (on_disk (scripted ''/home/u'' (\<lambda>ev. None) (\<lambda>command args. Closed (Some 0))))
          [(''build-dir'', JStr ''/w/build'')]
          [(''files'', JArr [JArr [JStr ''a.txt'', JStr ''sub/'']])]
          \<lparr>world = Dir [(''home'', Dir [(''u'', Dir [(''a.txt'', File ''hello'')])])],
           trace = []\<rparr>
        = (Some (SystemError ''EISDIR''),
           \<lparr>world = Dir [(''home'', Dir [(''u'', Dir [(''a.txt'', File ''hello'')])]),
                         (''w'', Dir [(''build'', Dir [(''files'', Dir [(''sub'', Dir [])])])])],
            trace = [Mkdirs ''/w/build/files/sub/'',
                     Copy ''/home/u/a.txt'' ''/w/build/files/sub/'']\<rparr>)"
    by (simp add: copyFiles_def map_jobs_def files copy_job_example run_all_def job_mkdirs_def
          copy_then_def mkdirs_def copy_def log_call_def fs_mkdirs_example fs_copy_example)
  then show ?thesis by simp
qed

text \<open>
  The same on every disk, for a files list of one pair: when the destination ends with the
  separator and the source is a regular file, the phase calls \<^verbatim>\<open>mkdirs\<close> on the
  destination and, if that succeeds, \<^verbatim>\<open>copy\<close> with the directory itself as the
  destination; it rejects either way, and no regular file is created or changed.
\<close>

lemma file_onto_directory_fails:
  assumes files: "obj_get manifest ''files'' = JArr [JArr [JStr src, JStr dst]]"
    and build: "obj_get options ''build-dir'' = JStr build"
    and sep: "endsWith_sep dst"
    and source: "path_resolve (sys_cwd sys) (JStr src) = Inr source"
    and isfile: "lstat (world s) (fs_path (sys_cwd sys) source) = Some (File content)"
  shows "\<exists>dest e.
           path_join [JStr build, JStr ''files'', JStr dst] = Inr dest
         \<and> fst (copyFiles (on_disk sys) options manifest s) = Some e
         \<and> trace (snd (copyFiles (on_disk sys) options manifest s))
             = trace s @ Mkdirs dest #
                 (if fst (fs_mkdirs (sys_cwd sys) dest (world s)) = None
                  then [Copy source dest] else [])
         \<and> (fst (fs_mkdirs (sys_cwd sys) dest (world s)) = None \<longrightarrow>
              (\<exists>es. lstat (world (snd (copyFiles (on_disk sys) options manifest s)))
                      (fs_path (sys_cwd sys) dest) = Some (Dir es)))
         \<and> (\<forall>p t. (lstat (world (snd (copyFiles (on_disk sys) options manifest s))) p
                      = Some (File t))
                   = (lstat (world s) p = Some (File t)))"
proof -
  let ?cwd = "sys_cwd sys"
  from path_join_trailing [OF sep, of build] obtain dest
    where dest: "path_join [JStr build, JStr ''files'', JStr dst] = Inr dest"
      and sep': "endsWith_sep dest"
    by blast
  have job: "copy_job (on_disk sys) options (JArr [JStr src, JStr dst]) = Inr (source, dest, dest)"
    by (simp add: copy_job_def js_index_def source build dest sep')
  obtain r w where m: "fs_mkdirs ?cwd dest (world s) = (r, w)"
    by (cases "fs_mkdirs ?cwd dest (world s)") auto
  then have mp: "mkdirp (fs_path ?cwd dest) (world s) = (r, w)"
    by (simp add: fs_mkdirs_def)
  have run: "copyFiles (on_disk sys) options manifest s
      = and_then (mkdirs (on_disk sys) dest) (copy (on_disk sys) source dest) s"
    by (cases r)
       (simp_all add: copyFiles_def map_jobs_def files job run_all_def job_mkdirs_def
          copy_then_def and_then_def mkdirs_def log_call_def m split: prod.split)
  show ?thesis
  proof (cases r)
    case (Some e)
    have "copyFiles (on_disk sys) options manifest s
            = (Some e, \<lparr>world = w, trace = trace s @ [Mkdirs dest]\<rparr>)"
      by (simp add: run and_then_def mkdirs_def log_call_def m Some)
    moreover have "(lstat w p = Some (File t)) = (lstat (world s) p = Some (File t))" for p t
      using mkdirp_files [OF mp] .
    ultimately show ?thesis
      using dest m Some by simp
  next
    case None
    from mkdirp_dir [OF mp [unfolded None]] obtain ds
      where d: "lstat w (fs_path ?cwd dest) = Some (Dir ds)" by blast
    have f: "lstat w (fs_path ?cwd source) = Some (File content)"
      using mkdirp_files [OF mp] isfile by simp
    from fs_copy_file_onto_dir [OF f d] obtain e w'
      where c: "fs_copy ?cwd source dest w = (Some e, w')"
        and keep: "\<And>p t. (lstat w' p = Some (File t)) = (lstat w p = Some (File t))"
        and d': "\<exists>ds'. lstat w' (fs_path ?cwd dest) = Some (Dir ds')"
      by blast
    have "copyFiles (on_disk sys) options manifest s
            = (Some e, \<lparr>world = w', trace = trace s @ [Mkdirs dest, Copy source dest]\<rparr>)"
      by (simp add: run and_then_def mkdirs_def copy_def log_call_def m None c)
    moreover have "(lstat w' p = Some (File t)) = (lstat (world s) p = Some (File t))" for p t
      using keep [of p t] mkdirp_files [OF mp, of p t] by simp
    ultimately show ?thesis
      using dest m None d' by simp
  qed
qed

text \<open>
  The two neighbouring cases succeed. A destination that names the file: the directory above
  it is made and the file is copied to that path.
\<close>

lemma file_to_path_example:
  "copyFiles (on_disk (scripted ''/home/u'' (\<lambda>ev. None) (\<lambda>command args. Closed (Some 0))))
     [(''build-dir'', JStr ''/w/build'')]
     [(''files'', JArr [JArr [JStr ''a.txt'', JStr ''sub/b.txt'']])]
     \<lparr>world = Dir [(''home'', Dir [(''u'', Dir [(''a.txt'', File ''hello'')])])],
      trace = []\<rparr>
   = (None,
      \<lparr>world = Dir [(''home'', Dir [(''u'', Dir [(''a.txt'', File ''hello'')])]),
                    (''w'', Dir [(''build'', Dir [(''files'',
                       Dir [(''sub'', Dir [(''b.txt'', File ''hello'')])])])])],
       trace = [Mkdirs ''/w/build/files/sub'',
                Copy ''/home/u/a.txt'' ''/w/build/files/sub/b.txt'']\<rparr>)"
proof -
  have files: "obj_get [(''files'', JArr [JArr [JStr ''a.txt'', JStr ''sub/b.txt'']])] ''files''
             = JArr [JArr [JStr ''a.txt'', JStr ''sub/b.txt'']]"
    by (simp add: obj_get_def)
  have job: "copy_job (on_disk (scripted ''/home/u'' (\<lambda>ev. None) (\<lambda>command args. Closed (Some 0)) :: node sys))
       [(''build-dir'', JStr ''/w/build'')] (JArr [JStr ''a.txt'', JStr ''sub/b.txt''])
     = Inr (''/home/u/a.txt'', ''/w/build/files/sub/b.txt'', ''/w/build/files/sub'')"
    by (simp add: copy_job_def js_index_def path_resolve_def path_join_def path_normalize_def
          isAbsolute_def endsWith_sep_def Let_def obj_get_def path_dirname_def)
  have parent: "path_dirname ''/w/build/files/sub/b.txt'' = ''/w/build/files/sub''"
    by (simp add: path_dirname_def isAbsolute_def)
  show ?thesis
    by (simp add: copyFiles_def map_jobs_def files job run_all_def job_mkdirs_def copy_then_def
          mkdirs_def copy_def log_call_def fs_mkdirs_def fs_copy_def fs_path_examples
          copy_parent_def parent)
qed

text \<open>A source that is a directory: its entries are copied into the directory made.\<close>

lemma directory_into_directory_example:
  "copyFiles (on_disk (scripted ''/home/u'' (\<lambda>ev. None) (\<lambda>command args. Closed (Some 0))))
     [(''build-dir'', JStr ''/w/build'')]
     [(''files'', JArr [JArr [JStr ''static'', JStr ''share/'']])]
     \<lparr>world = Dir [(''home'', Dir [(''u'', Dir [(''static'', Dir [(''x'', File ''1'')])])])],
      trace = []\<rparr>
   = (None,
      \<lparr>world = Dir [(''home'', Dir [(''u'', Dir [(''static'', Dir [(''x'', File ''1'')])])]),
                    (''w'', Dir [(''build'', Dir [(''files'',
                       Dir [(''share'', Dir [(''x'', File ''1'')])])])])],
       trace = [Mkdirs ''/w/build/files/share/'',
                Copy ''/home/u/static'' ''/w/build/files/share/'']\<rparr>)"
proof -
  have files: "obj_get [(''files'', JArr [JArr [JStr ''static'', JStr ''share/'']])] ''files''
             = JArr [JArr [JStr ''static'', JStr ''share/'']]"
    by (simp add: obj_get_def)
  have job: "copy_job (on_disk (scripted ''/home/u'' (\<lambda>ev. None) (\<lambda>command args. Closed (Some 0)) :: node sys))
       [(''build-dir'', JStr ''/w/build'')] (JArr [JStr ''static'', JStr ''share/''])
     = Inr (''/home/u/static'', ''/w/build/files/share/'', ''/w/build/files/share/'')"
    by (simp add: copy_job_def js_index_def path_resolve_def path_join_def path_normalize_def
          isAbsolute_def endsWith_sep_def Let_def obj_get_def)
  have paths: "fs_path ''/home/u'' ''/home/u/static'' = [''home'', ''u'', ''static'']"
    "fs_path ''/home/u'' ''/w/build/files/share/'' = [''w'', ''build'', ''files'', ''share'']"
    "fs_path ''/home/u'' ''/w/build/files/share'' = [''w'', ''build'', ''files'', ''share'']"
    by (simp_all add: fs_path_def isAbsolute_def)
  show ?thesis
    by (simp add: copyFiles_def map_jobs_def files job run_all_def job_mkdirs_def copy_then_def
          mkdirs_def copy_def log_call_def fs_mkdirs_def fs_copy_def paths copy_parent_def)
qed


end
